theory Spec2Isabelle
  imports Main
begin

section \<open>Python values, exceptions and string helpers\<close>

text \<open>
  The exceptions that the modelled part of \<^verbatim>\<open>summary_finder.py\<close> can raise. A fallible
  function returns \<open>error + 'a\<close>, with \<open>Inl\<close> for the raised exception.
  \<open>EskyDownloadError\<close> carries the identity of the \<^verbatim>\<open>KnownFile\<close> it was raised for.
\<close>

datatype error =
    ValueError
  | TypeError
  | OSError
  | IOError
  | UnboundLocalError
  | KeyError
  | EskyDownloadError nat
  | EskyVersionError

text \<open>
  The first component of a parsed qualifier is \<^verbatim>\<open>KNOWN_QUALIFIERS.get(name, "-1")\<close>: an
  integer for a known name and the \<^emph>\<open>string\<close> \<^verbatim>\<open>"-1"\<close> otherwise, so the model keeps
  both kinds of Python value.
\<close>

datatype pyobj = PyInt int | PyStr string

text \<open>Byte-wise lexicographic order of Python 2 \<^verbatim>\<open>str\<close> values.\<close>

fun str_lt :: "string \<Rightarrow> string \<Rightarrow> bool" where
  "str_lt [] [] = False"
| "str_lt [] (y # ys) = True"
| "str_lt (x # xs) [] = False"
| "str_lt (x # xs) (y # ys) =
     (if (of_char x :: nat) < of_char y then True
      else if (of_char y :: nat) < of_char x then False
      else str_lt xs ys)"

text \<open>
  Python 2 comparison of two objects that are integers or strings: integers compare by
  value, strings byte-wise, and an integer is smaller than every string (CPython 2 orders
  numbers before all other types).
\<close>

fun py_lt :: "pyobj \<Rightarrow> pyobj \<Rightarrow> bool" where
  "py_lt (PyInt a) (PyInt b) = (a < b)"
| "py_lt (PyInt a) (PyStr b) = True"
| "py_lt (PyStr a) (PyInt b) = False"
| "py_lt (PyStr a) (PyStr b) = str_lt a b"

text \<open>\<^verbatim>\<open>s.endswith("*")\<close>.\<close>

definition endswith_star :: "string \<Rightarrow> bool" where
  "endswith_star s = (case rev s of [] \<Rightarrow> False | c # _ \<Rightarrow> c = CHR ''*'')"

text \<open>\<^verbatim>\<open>s.rstrip(chars)\<close>: drop every trailing character that occurs in \<open>chars\<close>.\<close>

definition rstrip :: "string \<Rightarrow> string \<Rightarrow> string" where
  "rstrip chars s = rev (dropWhile (\<lambda>c. c \<in> set chars) (rev s))"

text \<open>\<^verbatim>\<open>s.lstrip(chars)\<close>.\<close>

definition lstrip :: "string \<Rightarrow> string \<Rightarrow> string" where
  "lstrip chars s = dropWhile (\<lambda>c. c \<in> set chars) s"

text \<open>\<^verbatim>\<open>s.split(c)\<close> for a one-character separator: always at least one piece.\<close>

fun split_on :: "char \<Rightarrow> string \<Rightarrow> string list" where
  "split_on c [] = [Nil]"
| "split_on c (x # xs) =
     (if x = c then [] # split_on c xs
      else (case split_on c xs of
              [] \<Rightarrow> [x # Nil]
            | y # ys \<Rightarrow> (x # y) # ys))"

text \<open>
  \<^verbatim>\<open>s.partition(c)\<close>: the text before the first \<open>c\<close>, whether \<open>c\<close> was found (the
  source only tests the separator for truth), and the text after it.
\<close>

definition partition_on :: "char \<Rightarrow> string \<Rightarrow> string \<times> bool \<times> string" where
  "partition_on c s =
     (takeWhile (\<lambda>x. x \<noteq> c) s, c \<in> set s, drop 1 (dropWhile (\<lambda>x. x \<noteq> c) s))"

definition is_digit :: "char \<Rightarrow> bool" where
  "is_digit c = (c \<in> set ''0123456789'')"

definition digit_val :: "char \<Rightarrow> nat" where
  "digit_val c = of_char c - 48"

text \<open>The value of a string of decimal digits.\<close>

definition digits_to_nat :: "string \<Rightarrow> nat" where
  "digits_to_nat s = foldl (\<lambda>acc c. 10 * acc + digit_val c) 0 s"

text \<open>
  Python 2 \<^verbatim>\<open>int(s)\<close> for a byte string: surrounding ASCII whitespace is ignored, one
  sign is allowed, and at least one decimal digit must follow; anything else raises
  \<^verbatim>\<open>ValueError\<close>, which is \<open>None\<close> here. (For a number too large for a machine
  integer Python 2 switches to its long-integer parser, which tolerates a final
  \<^verbatim>\<open>L\<close>; that suffix is not accepted here.)
\<close>

definition py_whitespace :: string where
  "py_whitespace = [CHR '' '', CHR 0x09, CHR 0x0A, CHR 0x0B, CHR 0x0C, CHR 0x0D]"

definition py_int :: "string \<Rightarrow> int option" where
  "py_int s =
     (let t = rstrip py_whitespace (lstrip py_whitespace s) in
      case t of
        [] \<Rightarrow> None
      | c # ds \<Rightarrow>
          if c = CHR ''-'' then
            (if ds \<noteq> [] \<and> list_all is_digit ds then Some (- int (digits_to_nat ds)) else None)
          else if c = CHR ''+'' then
            (if ds \<noteq> [] \<and> list_all is_digit ds then Some (int (digits_to_nat ds)) else None)
          else if list_all is_digit t then Some (int (digits_to_nat t))
          else None)"

text \<open>\<^verbatim>\<open>str(n)\<close> for integers.\<close>

fun str_nat :: "nat \<Rightarrow> string" where
  "str_nat n =
     (if n < 10 then [''0123456789'' ! n]
      else str_nat (n div 10) @ [''0123456789'' ! (n mod 10)])"

declare str_nat.simps [simp del]

definition str_int :: "int \<Rightarrow> string" where
  "str_int i = (if i < 0 then CHR ''-'' # str_nat (nat (- i)) else str_nat (nat i))"

text \<open>\<^verbatim>\<open>sep.join(pieces)\<close>.\<close>

fun join :: "string \<Rightarrow> string list \<Rightarrow> string" where
  "join sep [] = []"
| "join sep [x] = x"
| "join sep (x # y # ys) = x @ sep @ join sep (y # ys)"

text \<open>
  \<^verbatim>\<open>itertools.izip_longest(xs, ys)\<close>: pairs up to the longer list, a missing element
  being \<^verbatim>\<open>None\<close>.
\<close>

fun izip_longest :: "'a list \<Rightarrow> 'b list \<Rightarrow> ('a option \<times> 'b option) list" where
  "izip_longest [] [] = []"
| "izip_longest (x # xs) [] = (Some x, None) # izip_longest xs []"
| "izip_longest [] (y # ys) = (None, Some y) # izip_longest [] ys"
| "izip_longest (x # xs) (y # ys) = (Some x, Some y) # izip_longest xs ys"

section \<open>VersionNumber\<close>

text \<open>
  The attribute \<^verbatim>\<open>qualifier\<close> is \<^verbatim>\<open>False\<close> (no qualifier), \<^verbatim>\<open>True\<close> (the wildcard
  qualifier of \<^verbatim>\<open>1_*\<close>) or the tuple \<^verbatim>\<open>(order, number, name)\<close>.
\<close>

datatype qualifier = NoQual | AnyQual | Qual pyobj nat string

text \<open>
  A \<^emph>\<open>valid\<close> version number: the attributes \<^verbatim>\<open>parts\<close>, \<^verbatim>\<open>qualifier\<close> and
  \<^verbatim>\<open>wildcard\<close>. A string that fails to parse gives an object flagged \<^verbatim>\<open>invalid\<close>,
  whose comparisons fall back to object identity; such objects are not values of this
  type, and the parser returns \<open>None\<close> for them.
\<close>

record version =
  parts :: "int list"
  qualifier :: qualifier
  wildcard :: bool

definition KNOWN_QUALIFIERS :: "(string \<times> int) list" where
  "KNOWN_QUALIFIERS = [(''pre'', 0), (''alpha'', 1), (''beta'', 2), (''rc'', 3)]"

text \<open>\<^verbatim>\<open>VersionNumber.parse_qualifier\<close>.\<close>

definition parse_qualifier :: "string \<Rightarrow> qualifier" where
  "parse_qualifier q =
     (if q = ''final'' then NoQual
      else
        let name = rstrip ''0123456789'' q;
            number_str = drop (length name) q;
            number = (if number_str \<noteq> [] then digits_to_nat number_str else 0);
            qualifier_index =
              (case map_of KNOWN_QUALIFIERS name of
                 Some i \<Rightarrow> PyInt i
               | None \<Rightarrow> PyStr ''-1'')
        in Qual qualifier_index number name)"

text \<open>
  The loop \<^verbatim>\<open>while len(self.parts) > 1 and self.parts[-1] == 0: self.parts.pop()\<close>.
\<close>

function strip_zeros :: "int list \<Rightarrow> int list" where
  "strip_zeros ps =
     (if length ps > 1 \<and> last ps = 0 then strip_zeros (butlast ps) else ps)"
  by pat_completeness auto
termination
  by (relation "measure length") auto

declare strip_zeros.simps [simp del]

text \<open>
  \<^verbatim>\<open>VersionNumber.__init__\<close> on a string. \<open>None\<close> stands for the object marked
  \<^verbatim>\<open>invalid\<close> (an exception inside the \<^verbatim>\<open>try\<close> block).
\<close>

definition VersionNumber :: "string \<Rightarrow> version option" where
  "VersionNumber version_string =
     (let wc = endswith_star version_string;
          s = rstrip ''.*'' version_string
      in if s = [] then Some \<lparr>parts = [], qualifier = NoQual, wildcard = wc\<rparr>
         else
           let ps = split_on CHR ''.'' s;
               (lst, has_qual, qual) = partition_on CHR ''_'' (last ps)
           in case those (map py_int (butlast ps @ [lst])) of
                None \<Rightarrow> None
              | Some nums \<Rightarrow>
                  let nums' = (if \<not> wc then strip_zeros nums else nums) in
                  if has_qual then
                    (if wc \<and> qual = [] then
                       Some \<lparr>parts = nums', qualifier = AnyQual, wildcard = wc\<rparr>
                     else
                       (case parse_qualifier qual of
                          Qual i n nm \<Rightarrow>
                            if n \<noteq> 0 \<and> wc then None
                            else Some \<lparr>parts = nums', qualifier = Qual i n nm, wildcard = wc\<rparr>
                        | q \<Rightarrow> Some \<lparr>parts = nums', qualifier = q, wildcard = wc\<rparr>))
                  else Some \<lparr>parts = nums', qualifier = NoQual, wildcard = wc\<rparr>)"

text \<open>Truth value of the attribute \<^verbatim>\<open>qualifier\<close>.\<close>

definition has_qualifier :: "version \<Rightarrow> bool" where
  "has_qualifier v = (qualifier v \<noteq> NoQual)"

text \<open>
  \<^verbatim>\<open>VersionNumber.__eq__\<close> on two valid versions: the three attributes are compared.
\<close>

definition version_eq :: "version \<Rightarrow> version \<Rightarrow> bool" where
  "version_eq a b =
     (qualifier a = qualifier b \<and> parts a = parts b \<and> wildcard a = wildcard b)"

text \<open>
  The loop over \<^verbatim>\<open>izip_longest(self.parts, other.parts)\<close> in \<^verbatim>\<open>__cmp__\<close>; \<open>None\<close>
  means that the loop ran to its end without returning.
\<close>

fun cmp_loop :: "(int option \<times> int option) list \<Rightarrow> int option" where
  "cmp_loop [] = None"
| "cmp_loop ((mine, yours) # rest) =
     (case mine of
        None \<Rightarrow> Some (- 1)
      | Some m \<Rightarrow>
          (case yours of
             None \<Rightarrow> Some 1
           | Some y \<Rightarrow>
               if y > m then Some (- 1)
               else if m > y then Some 1
               else cmp_loop rest))"

text \<open>
  \<^verbatim>\<open>VersionNumber.__cmp__\<close> on two valid versions: \<open>1\<close> is \<^verbatim>\<open>SELF_GREATER\<close>, \<open>0\<close> is
  \<^verbatim>\<open>EQUAL\<close> and \<open>- 1\<close> is \<^verbatim>\<open>OTHER_GREATER\<close>.
\<close>

definition version_cmp :: "version \<Rightarrow> version \<Rightarrow> error + int" where
  "version_cmp self other =
     (if parts self = [] \<or> parts other = [] then Inl ValueError
      else if wildcard self \<or> wildcard other then Inl ValueError
      else
        (case cmp_loop (izip_longest (parts self) (parts other)) of
           Some r \<Rightarrow> Inr r
         | None \<Rightarrow>
             (case (qualifier self, qualifier other) of
                (Qual my_order my_number my_name, Qual your_order your_number your_name) \<Rightarrow>
                  if my_order = PyInt (- 1) \<or> your_order = PyInt (- 1) then Inl ValueError
                  else if py_lt my_order your_order then Inr (- 1)
                  else if py_lt your_order my_order then Inr 1
                  else if my_number < your_number then Inr (- 1)
                  else if your_number < my_number then Inr 1
                  else Inr 0
              | (AnyQual, Qual your_order your_number your_name) \<Rightarrow> Inl TypeError
              | (Qual my_order my_number my_name, AnyQual) \<Rightarrow> Inl TypeError
              | (AnyQual, AnyQual) \<Rightarrow> Inl TypeError
              | (NoQual, NoQual) \<Rightarrow> Inr 0
              | (NoQual, _) \<Rightarrow> Inr 1
              | (_, NoQual) \<Rightarrow> Inr (- 1))))"

text \<open>
  The operators that Python 2 derives from \<^verbatim>\<open>__cmp__\<close>.
\<close>

definition version_lt :: "version \<Rightarrow> version \<Rightarrow> error + bool" where
  "version_lt a b = (case version_cmp a b of Inl e \<Rightarrow> Inl e | Inr c \<Rightarrow> Inr (c < 0))"

definition version_le :: "version \<Rightarrow> version \<Rightarrow> error + bool" where
  "version_le a b = (case version_cmp a b of Inl e \<Rightarrow> Inl e | Inr c \<Rightarrow> Inr (c \<le> 0))"

definition version_gt :: "version \<Rightarrow> version \<Rightarrow> error + bool" where
  "version_gt a b = (case version_cmp a b of Inl e \<Rightarrow> Inl e | Inr c \<Rightarrow> Inr (c > 0))"

definition version_ge :: "version \<Rightarrow> version \<Rightarrow> error + bool" where
  "version_ge a b = (case version_cmp a b of Inl e \<Rightarrow> Inl e | Inr c \<Rightarrow> Inr (c \<ge> 0))"

text \<open>
  The loop over \<^verbatim>\<open>izip_longest(self.parts, other.parts)\<close> in \<^verbatim>\<open>wildcard_match\<close>, with
  the truth value of \<^verbatim>\<open>self.qualifier\<close> as first argument. The tests are those of the
  source, in its order; \<^verbatim>\<open>None != mine\<close> is the inequality of an absent and a present
  value.
\<close>

fun wildcard_loop :: "bool \<Rightarrow> (int option \<times> int option) list \<Rightarrow> bool option" where
  "wildcard_loop q [] = None"
| "wildcard_loop q ((mine, yours) # rest) =
     (if mine = None then (if q then Some False else Some True)
      else if yours = None \<and> mine \<noteq> Some 0 then Some False
      else if yours \<noteq> mine then Some False
      else wildcard_loop q rest)"

text \<open>
  \<^verbatim>\<open>VersionNumber.wildcard_match\<close> on two valid versions. The last test reads
  \<^verbatim>\<open>other.qualifier[2]\<close>; when \<^verbatim>\<open>other.qualifier\<close> is \<^verbatim>\<open>True\<close> (the candidate is
  itself a wildcard such as \<^verbatim>\<open>1_*\<close>), indexing it raises \<^verbatim>\<open>TypeError\<close>.
\<close>

definition wildcard_match :: "version \<Rightarrow> version \<Rightarrow> error + bool" where
  "wildcard_match self other =
     (if \<not> wildcard self then Inr False
      else if parts self = [] then Inr True
      else if parts other = [] then Inr False
      else if has_qualifier other \<noteq> has_qualifier self then Inr False
      else
        (case wildcard_loop (has_qualifier self) (izip_longest (parts self) (parts other)) of
           Some r \<Rightarrow> Inr r
         | None \<Rightarrow>
             (case qualifier self of
                NoQual \<Rightarrow> Inr True
              | AnyQual \<Rightarrow> Inr True
              | Qual my_order my_number my_name \<Rightarrow>
                  (case qualifier other of
                     Qual your_order your_number your_name \<Rightarrow> Inr (my_name = your_name)
                   | _ \<Rightarrow> Inl TypeError))))"

text \<open>\<^verbatim>\<open>VersionNumber.__contains__\<close>: \<^verbatim>\<open>other in self\<close>.\<close>

definition version_contains :: "version \<Rightarrow> version \<Rightarrow> error + bool" where
  "version_contains self other =
     (if wildcard self then wildcard_match self other else Inr (version_eq self other))"

text \<open>\<^verbatim>\<open>VersionNumber.in_any\<close>, on a list of valid versions.\<close>

fun in_any :: "version \<Rightarrow> version list \<Rightarrow> error + bool" where
  "in_any self [] = Inr False"
| "in_any self (v # potentials) =
     (case version_contains v self of
        Inl e \<Rightarrow> Inl e
      | Inr found \<Rightarrow> if found then Inr True else in_any self potentials)"

text \<open>\<^verbatim>\<open>VersionNumber.__str__\<close> of a valid version.\<close>

definition version_str :: "version \<Rightarrow> string" where
  "version_str v =
     (if wildcard v \<and> parts v = [] then ''*''
      else
        let base = join ''.'' (map str_int (parts v)) in
        if wildcard v \<and> has_qualifier v then
          (case qualifier v of
             Qual order number name \<Rightarrow> base @ ''_'' @ name @ ''*''
           | _ \<Rightarrow> base @ ''_*'')
        else if wildcard v then base @ ''.*''
        else
          (case qualifier v of
             Qual order number name \<Rightarrow>
               base @ ''_'' @ name @ (if number \<noteq> 0 then str_nat number else [])
           | _ \<Rightarrow> base))"

text \<open>
  \<^verbatim>\<open>VersionNumber(v)\<close> for a version object \<open>v\<close>, the source's ``poor man's copy'': the
  canonical string is parsed again.
\<close>

definition version_copy :: "version \<Rightarrow> version option" where
  "version_copy v = VersionNumber (version_str v)"

text \<open>
  An argument of \<^verbatim>\<open>VersionNumber(...)\<close>: a string, or a (valid) version object. The
  methods of the graph convert their arguments with it first
  (\<^verbatim>\<open>current_version = VersionNumber(source)\<close>).
\<close>

datatype version_arg = Text string | Obj version

text \<open>
  \<^verbatim>\<open>VersionNumber.__init__\<close> on either kind of argument: a string is parsed, a version
  object is copied through its canonical string. \<open>None\<close> is again the object marked
  \<^verbatim>\<open>invalid\<close>.
\<close>

definition VersionNumber_of :: "version_arg \<Rightarrow> version option" where
  "VersionNumber_of a = (case a of Text s \<Rightarrow> VersionNumber s | Obj v \<Rightarrow> version_copy v)"

section \<open>KnownFile and the downloads directory\<close>

text \<open>
  One row of the summary file. \<open>ident\<close> is the identity of the Python object: the class
  defines neither \<^verbatim>\<open>__eq__\<close> nor \<^verbatim>\<open>__hash__\<close>, so two rows with the same fields are
  different members of a set. \<open>filename\<close> is the value of \<^verbatim>\<open>get_filename()\<close>, the
  basename of the path of \<^verbatim>\<open>url\<close> (computed by library code); the declared size
  \<open>fsize\<close> is a byte count (\<open>0\<close> when the row gives none), and \<open>hash\<close> is the declared
  SHA-256 digest, if any. The produced version and the patterns of \<^verbatim>\<open>from_versions\<close> are
  valid version numbers: a row with a text that does not parse is outside this model.
\<close>

record known_file =
  ident :: nat
  app_name :: string
  platform :: string
  version :: version
  from_versions :: "version list"
  filename :: string
  fsize :: nat
  hash :: "string option"

definition get_filename :: "known_file \<Rightarrow> string" where
  "get_filename f = filename f"

text \<open>
  The downloads directory of the application: file name to content. Every
  \<^verbatim>\<open>get_full_filename(app)\<close> is a path in this directory.
\<close>

type_synonym downloads = "string \<rightharpoonup> string"

definition KB :: nat where
  "KB = 1024"

definition MB :: nat where
  "MB = KB * 1024"

text \<open>
  \<^verbatim>\<open>file.truncate(size)\<close> on a file opened with \<^verbatim>\<open>"rb+"\<close>: a longer file is cut, a
  shorter one is extended with zero bytes (the behaviour of POSIX \<^verbatim>\<open>ftruncate\<close>).
\<close>

definition truncate_to :: "nat \<Rightarrow> string \<Rightarrow> string" where
  "truncate_to n data = take n data @ replicate (n - length data) (CHR 0x00)"

text \<open>
  \<^verbatim>\<open>hash_file(full_filename, size)\<close>. The digest function of \<^verbatim>\<open>hashlib.sha256\<close> is the
  parameter \<open>sha256\<close>; the file is read in blocks from its start, and the digest is
  that of the whole (truncated) content. Opening a missing file raises \<^verbatim>\<open>IOError\<close>.
\<close>

definition hash_file ::
  "(string \<Rightarrow> string) \<Rightarrow> downloads \<Rightarrow> string \<Rightarrow> nat \<Rightarrow> error + (string \<times> downloads)" where
  "hash_file sha256 fs full_filename sz =
     (case fs full_filename of
        None \<Rightarrow> Inl IOError
      | Some data \<Rightarrow>
          let data' = (if sz \<noteq> 0 then truncate_to sz data else data)
          in Inr (sha256 data', fs(full_filename \<mapsto> data')))"

text \<open>
  A call of \<^verbatim>\<open>hash_file\<close> with the file name and the list of the further positional
  arguments. The function is declared with exactly two parameters
  (\<^verbatim>\<open>def hash_file(full_filename, size)\<close>), so a call with any other number of arguments
  raises \<^verbatim>\<open>TypeError\<close> before the body runs.
\<close>

definition call_hash_file ::
  "(string \<Rightarrow> string) \<Rightarrow> downloads \<Rightarrow> string \<Rightarrow> nat list \<Rightarrow> error + (string \<times> downloads)" where
  "call_hash_file sha256 fs full_filename args =
     (case args of
        [sz] \<Rightarrow> hash_file sha256 fs full_filename sz
      | _ \<Rightarrow> Inl TypeError)"

text \<open>\<^verbatim>\<open>not self.hash\<close>: no digest, or an empty one.\<close>

definition no_hash :: "known_file \<Rightarrow> bool" where
  "no_hash f = (case hash f of None \<Rightarrow> True | Some h \<Rightarrow> h = [])"

text \<open>
  \<^verbatim>\<open>KnownFile.check_hash(app, actual_size=-1, hash=None)\<close>. The two optional arguments
  are \<open>None\<close> when the caller leaves them out. The result carries the directory, because
  \<^verbatim>\<open>hash_file\<close> writes to the file.
\<close>

definition check_hash ::
  "(string \<Rightarrow> string) \<Rightarrow> downloads \<Rightarrow> known_file \<Rightarrow> nat option \<Rightarrow> string option
     \<Rightarrow> error + (bool \<times> downloads)" where
  "check_hash sha256 fs f actual_size_arg hash_arg =
     (case fs (get_filename f) of
        None \<Rightarrow> Inr (False, fs)
      | Some data \<Rightarrow>
          let actual_size = (case actual_size_arg of None \<Rightarrow> length data | Some n \<Rightarrow> n) in
          if no_hash f then
            (if fsize f = 0 then Inr (actual_size \<noteq> 0, fs)
             else Inr (actual_size = fsize f, fs))
          else
            (case hash_arg of
               Some h \<Rightarrow> Inr (Some h = hash f, fs)
             | None \<Rightarrow>
                 (case call_hash_file sha256 fs (get_filename f) [fsize f] of
                    Inl e \<Rightarrow> Inl e
                  | Inr (h, fs') \<Rightarrow> Inr (Some h = hash f, fs'))))"

text \<open>The value of \<^verbatim>\<open>VersionNumber("")\<close>.\<close>

definition empty_version :: version where
  "empty_version = \<lparr>parts = [], qualifier = NoQual, wildcard = False\<rparr>"

text \<open>\<^verbatim>\<open>KnownFile.get_cost(app)\<close>.\<close>

definition get_cost ::
  "(string \<Rightarrow> string) \<Rightarrow> downloads \<Rightarrow> known_file \<Rightarrow> error + (nat \<times> downloads)" where
  "get_cost sha256 fs f =
     (case (if fsize f > 0 then Inr (fsize f)
            else (case in_any empty_version (from_versions f) of
                    Inl e \<Rightarrow> Inl e
                  | Inr full \<Rightarrow> if full then Inr (10 * MB) else Inr (2 * MB))) of
        Inl e \<Rightarrow> Inl e
      | Inr sz \<Rightarrow>
          (case check_hash sha256 fs f None None of
             Inl e \<Rightarrow> Inl e
           | Inr (ok, fs') \<Rightarrow> Inr (if ok then max 1 (sz div 1024) else sz, fs')))"

section \<open>KnownFile.fetch\<close>

text \<open>
  What the server does at one \<^verbatim>\<open>urlopen\<close>: the request fails (\<open>ConnError\<close>, nothing is
  written), the body arrives whole (\<open>Body\<close>), or the transfer breaks after part of the
  body was written (\<open>BodyThenError\<close>). The network is the list of the answers to the
  successive requests; with no answer left the request fails.
\<close>

datatype response = ConnError | Body string | BodyThenError string

text \<open>
  Writing a body to the local file: mode \<^verbatim>\<open>"ab"\<close> (append, creating the file if it is
  missing) when \<^verbatim>\<open>seek_to > 0\<close>, mode \<^verbatim>\<open>"wb"\<close> (create or overwrite) otherwise.
\<close>

definition write_body :: "downloads \<Rightarrow> string \<Rightarrow> nat \<Rightarrow> string \<Rightarrow> downloads" where
  "write_body fs full_filename seek_to data =
     (if seek_to > 0 then
        fs(full_filename \<mapsto> (case fs full_filename of None \<Rightarrow> [] | Some old \<Rightarrow> old) @ data)
      else fs(full_filename \<mapsto> data))"

text \<open>
  The first statement of the loop body of \<^verbatim>\<open>fetch\<close> (the test of the local file).
  \<open>Done\<close> is the \<^verbatim>\<open>return\<close>; \<open>Go tries_left seek_to\<close> continues with the two variables
  as this statement leaves them. \<^verbatim>\<open>seek_to\<close> is \<open>None\<close> while the variable is unbound:
  the branch of the failed hash check does not assign it.
\<close>

datatype probe = Done | Go int "nat option"

definition fetch_probe ::
  "(string \<Rightarrow> string) \<Rightarrow> known_file \<Rightarrow> int \<Rightarrow> nat option \<Rightarrow> downloads
     \<Rightarrow> error + (probe \<times> downloads)" where
  "fetch_probe sha256 f tries_left seek_to fs =
     (case fs (get_filename f) of
        None \<Rightarrow> Inr (Go tries_left (Some 0), fs)
      | Some data \<Rightarrow>
          let actual_size = length data in
          if fsize f = 0 then
            (if actual_size > 0 then Inr (Done, fs)
             else Inr (Go tries_left (Some 0), fs))
          else if actual_size < fsize f then Inr (Go tries_left (Some actual_size), fs)
          else
            (case check_hash sha256 fs f None None of
               Inl e \<Rightarrow> Inl e
             | Inr (ok, fs') \<Rightarrow>
                 if ok then Inr (Done, fs')
                 else Inr (Go (tries_left - 1) seek_to, fs'(get_filename f := None))))"

lemma fetch_probe_tries:
  "fetch_probe sha256 f tries_left seek_to fs = Inr (Go t s, fs') \<Longrightarrow> t \<le> tries_left"
  by (auto simp: fetch_probe_def Let_def split: option.splits if_splits sum.splits prod.splits)

text \<open>
  The loop \<^verbatim>\<open>while tries_left > 0\<close> of \<^verbatim>\<open>fetch\<close>, with the variables
  \<^verbatim>\<open>tries_left\<close>, \<^verbatim>\<open>resumed_from\<close> and \<^verbatim>\<open>seek_to\<close>. The result is the outcome (an
  exception or the plain \<^verbatim>\<open>return\<close>), the directory and the answers the server has not
  given yet. \<^verbatim>\<open>os.unlink\<close> of a missing file raises \<^verbatim>\<open>OSError\<close>; reading the unbound
  \<^verbatim>\<open>seek_to\<close> raises \<^verbatim>\<open>UnboundLocalError\<close>; neither is caught.
\<close>

function fetch_loop ::
  "(string \<Rightarrow> string) \<Rightarrow> known_file \<Rightarrow> int \<Rightarrow> int \<Rightarrow> nat option \<Rightarrow> downloads \<Rightarrow> response list
     \<Rightarrow> (error + unit) \<times> downloads \<times> response list" where
  "fetch_loop sha256 f tries_left resumed_from seek_to fs net =
     (if tries_left > 0 then
        (case fetch_probe sha256 f tries_left seek_to fs of
           Inl e \<Rightarrow> (Inl e, fs, net)
         | Inr (Done, fs1) \<Rightarrow> (Inr (), fs1, net)
         | Inr (Go tries1 seek1, fs1) \<Rightarrow>
             (case seek1 of
                None \<Rightarrow> (Inl UnboundLocalError, fs1, net)
              | Some sk \<Rightarrow>
                  if resumed_from = int sk then
                    (case fs1 (get_filename f) of
                       None \<Rightarrow> (Inl OSError, fs1, net)
                     | Some old \<Rightarrow>
                         fetch_loop sha256 f (tries1 - 1) (- 1) seek1
                           (fs1(get_filename f := None)) net)
                  else
                    (case net of
                       [] \<Rightarrow> fetch_loop sha256 f (tries1 - 1) (int sk) seek1 fs1 []
                     | ConnError # net' \<Rightarrow>
                         fetch_loop sha256 f (tries1 - 1) (int sk) seek1 fs1 net'
                     | Body data # net' \<Rightarrow>
                         fetch_loop sha256 f tries1 (int sk) seek1
                           (write_body fs1 (get_filename f) sk data) net'
                     | BodyThenError data # net' \<Rightarrow>
                         fetch_loop sha256 f (tries1 - 1) (int sk) seek1
                           (write_body fs1 (get_filename f) sk data) net')))
      else (Inl (EskyDownloadError (ident f)), fs, net))"
  by pat_completeness auto
termination
  by (relation "measure (\<lambda>(sha256, f, tries_left, resumed_from, seek_to, fs, net).
                   nat tries_left + length net)")
     (auto dest: fetch_probe_tries)

declare fetch_loop.simps [simp del]

text \<open>\<^verbatim>\<open>KnownFile.fetch(app)\<close>.\<close>

definition fetch ::
  "(string \<Rightarrow> string) \<Rightarrow> known_file \<Rightarrow> downloads \<Rightarrow> response list
     \<Rightarrow> (error + unit) \<times> downloads \<times> response list" where
  "fetch sha256 f fs net = fetch_loop sha256 f 2 (- 1) None fs net"

section \<open>SummaryVersionFinder.identify_file\<close>

text \<open>
  The loop \<^verbatim>\<open>for file in matches[::-1]\<close>: the first record of the list whose
  \<^verbatim>\<open>check_hash(app, size, hash)\<close> passes.
\<close>

fun first_passing ::
  "(string \<Rightarrow> string) \<Rightarrow> downloads \<Rightarrow> nat \<Rightarrow> string \<Rightarrow> known_file list
     \<Rightarrow> error + (known_file option \<times> downloads)" where
  "first_passing sha256 fs sz h [] = Inr (None, fs)"
| "first_passing sha256 fs sz h (file # rest) =
     (case check_hash sha256 fs file (Some sz) (Some h) of
        Inl e \<Rightarrow> Inl e
      | Inr (ok, fs') \<Rightarrow>
          if ok then Inr (Some file, fs') else first_passing sha256 fs' sz h rest)"

text \<open>
  \<^verbatim>\<open>identify_file(app, filename, file_dir)\<close> for a file of the downloads directory, with
  the list \<^verbatim>\<open>self.known_files\<close>. With several matching records the source calls
  \<^verbatim>\<open>hash_file(full_filename)\<close>, that is with no \<^verbatim>\<open>size\<close> argument.
\<close>

definition identify_file ::
  "(string \<Rightarrow> string) \<Rightarrow> known_file list \<Rightarrow> downloads \<Rightarrow> string
     \<Rightarrow> error + (known_file option \<times> downloads)" where
  "identify_file sha256 known_files fs fname =
     (let matches = filter (\<lambda>file. get_filename file = fname) known_files in
      if matches = [] then Inr (None, fs)
      else if length matches = 1 then Inr (Some (hd matches), fs)
      else
        (case call_hash_file sha256 fs fname [] of
           Inl e \<Rightarrow> Inl e
         | Inr (h, fs1) \<Rightarrow>
             (case fs1 fname of
                None \<Rightarrow> Inl OSError
              | Some data \<Rightarrow>
                  (case first_passing sha256 fs1 (length data) h (rev matches) of
                     Inl e \<Rightarrow> Inl e
                   | Inr (Some file, fs2) \<Rightarrow> Inr (Some file, fs2)
                   | Inr (None, fs2) \<Rightarrow> Inr (Some (last matches), fs2)))))"

section \<open>SummaryVersionGraph\<close>

text \<open>Storing a value under a key of a Python \<^verbatim>\<open>dict\<close>, kept as an association list.\<close>

fun dict_set :: "'k \<Rightarrow> 'v \<Rightarrow> ('k \<times> 'v) list \<Rightarrow> ('k \<times> 'v) list" where
  "dict_set k v [] = [(k, v)]"
| "dict_set k v ((k', v') # rest) =
     (if k' = k then (k, v) # rest else (k', v') # dict_set k v rest)"

text \<open>\<^verbatim>\<open>s.add(x)\<close> on a Python \<^verbatim>\<open>set\<close>, kept as a list in insertion order.\<close>

definition set_add :: "'a \<Rightarrow> 'a list \<Rightarrow> 'a list" where
  "set_add x xs = (if x \<in> set xs then xs else xs @ [x])"

text \<open>
  The attributes of \<^verbatim>\<open>SummaryVersionGraph\<close>: \<^verbatim>\<open>upgrades\<close> is the
  \<^verbatim>\<open>defaultdict(set)\<close> from a version to the files that upgrade it, \<^verbatim>\<open>files\<close> and
  \<^verbatim>\<open>versions\<close> are sets. The sets are lists in insertion order (Python does not fix
  the order in which a set is iterated); the keys are valid versions, for which
  \<^verbatim>\<open>__eq__\<close> is the equality of the three attributes and equal versions have equal
  hashes.
\<close>

record graph =
  upgrades :: "(version \<times> known_file list) list"
  files :: "known_file list"
  versions :: "version list"

text \<open>
  \<^verbatim>\<open>self.upgrades[v]\<close>, read. Reading a missing key of the \<^verbatim>\<open>defaultdict\<close> stores an
  empty set under it; a missing key and an empty set behave alike in every function
  below, so the model does not record that insertion.
\<close>

definition upgrades_of :: "graph \<Rightarrow> version \<Rightarrow> known_file list" where
  "upgrades_of g v = (case map_of (upgrades g) v of None \<Rightarrow> [] | Some fs \<Rightarrow> fs)"

text \<open>\<^verbatim>\<open>self.upgrades[v].add(f)\<close>.\<close>

definition add_upgrade ::
  "version \<Rightarrow> known_file \<Rightarrow> (version \<times> known_file list) list
     \<Rightarrow> (version \<times> known_file list) list" where
  "add_upgrade v f ups =
     dict_set v (set_add f (case map_of ups v of None \<Rightarrow> [] | Some fs \<Rightarrow> fs)) ups"

text \<open>
  \<^verbatim>\<open>SummaryVersionGraph.new_version\<close>: the version becomes a node, and every known
  file whose \<^verbatim>\<open>from_versions\<close> match it becomes an edge that leaves it. There is no test
  of the order of the versions.
\<close>

fun new_version_loop ::
  "version \<Rightarrow> known_file list \<Rightarrow> (version \<times> known_file list) list
     \<Rightarrow> error + (version \<times> known_file list) list" where
  "new_version_loop v [] ups = Inr ups"
| "new_version_loop v (file # rest) ups =
     (case in_any v (from_versions file) of
        Inl e \<Rightarrow> Inl e
      | Inr found \<Rightarrow>
          if found then new_version_loop v rest (add_upgrade v file ups)
          else new_version_loop v rest ups)"

definition new_version :: "graph \<Rightarrow> version \<Rightarrow> error + graph" where
  "new_version g v =
     (case new_version_loop v (files g) (upgrades g) of
        Inl e \<Rightarrow> Inl e
      | Inr ups \<Rightarrow> Inr (g\<lparr>versions := set_add v (versions g), upgrades := ups\<rparr>))"

text \<open>
  The loop \<^verbatim>\<open>for old_version in self.versions\<close> of \<^verbatim>\<open>add_file\<close>, which skips the
  versions greater than the one the file produces (``Ignore downgrades'').
\<close>

fun add_file_loop ::
  "known_file \<Rightarrow> version list \<Rightarrow> (version \<times> known_file list) list
     \<Rightarrow> error + (version \<times> known_file list) list" where
  "add_file_loop new_file [] ups = Inr ups"
| "add_file_loop new_file (old_version # rest) ups =
     (case version_gt old_version (version new_file) of
        Inl e \<Rightarrow> Inl e
      | Inr gt \<Rightarrow>
          if gt then add_file_loop new_file rest ups
          else
            (case in_any old_version (from_versions new_file) of
               Inl e \<Rightarrow> Inl e
             | Inr found \<Rightarrow>
                 if found
                 then add_file_loop new_file rest (add_upgrade old_version new_file ups)
                 else add_file_loop new_file rest ups))"

text \<open>\<^verbatim>\<open>SummaryVersionGraph.add_file\<close>.\<close>

definition add_file :: "graph \<Rightarrow> known_file \<Rightarrow> error + graph" where
  "add_file g new_file =
     (case (if version new_file \<notin> set (versions g)
            then new_version g (version new_file) else Inr g) of
        Inl e \<Rightarrow> Inl e
      | Inr g1 \<Rightarrow>
          let g2 = g1\<lparr>files := set_add new_file (files g1)\<rparr>
          in case add_file_loop new_file (versions g2) (upgrades g2) of
               Inl e \<Rightarrow> Inl e
             | Inr ups \<Rightarrow> Inr (g2\<lparr>upgrades := ups\<rparr>))"

text \<open>The attributes of the application object that the graph reads.\<close>

record app =
  name :: string
  app_platform :: string

text \<open>The loop of \<^verbatim>\<open>SummaryVersionGraph.__init__\<close> over the known files.\<close>

fun add_files :: "app \<Rightarrow> known_file list \<Rightarrow> graph \<Rightarrow> error + graph" where
  "add_files a [] g = Inr g"
| "add_files a (file_info # rest) g =
     (if app_name file_info \<noteq> name a \<or> platform file_info \<noteq> app_platform a
      then add_files a rest g
      else (case add_file g file_info of
              Inl e \<Rightarrow> Inl e
            | Inr g' \<Rightarrow> add_files a rest g'))"

text \<open>\<^verbatim>\<open>SummaryVersionGraph(known_files, app)\<close>.\<close>

definition SummaryVersionGraph :: "known_file list \<Rightarrow> app \<Rightarrow> error + graph" where
  "SummaryVersionGraph known_files a =
     add_files a known_files \<lparr>upgrades = [], files = [], versions = []\<rparr>"

text \<open>
  The loop \<^verbatim>\<open>for upgrade_file in self.upgrades[version]\<close> of \<^verbatim>\<open>get_versions\<close>, on
  the set \<^verbatim>\<open>unreachable_versions\<close> and the stack \<^verbatim>\<open>just_reached\<close> (its top is the
  last element).
\<close>

fun reach_files ::
  "known_file list \<Rightarrow> version list \<Rightarrow> version list \<Rightarrow> version list \<times> version list" where
  "reach_files [] unreachable just_reached = (unreachable, just_reached)"
| "reach_files (upgrade_file # rest) unreachable just_reached =
     (if version upgrade_file \<in> set unreachable
      then reach_files rest (removeAll (version upgrade_file) unreachable)
             (just_reached @ [version upgrade_file])
      else reach_files rest unreachable just_reached)"

lemma reach_files_measure:
  "reach_files fs u j = (u', j') \<Longrightarrow> 2 * length u' + length j' \<le> 2 * length u + length j"
proof (induction fs arbitrary: u j)
  case Nil
  then show ?case by simp
next
  case (Cons f fs)
  show ?case
  proof (cases "version f \<in> set u")
    case True
    then have "length (removeAll (version f) u) < length u"
      by (simp add: length_removeAll_less)
    moreover from Cons.prems True
    have "2 * length u' + length j'
            \<le> 2 * length (removeAll (version f) u) + length (j @ [version f])"
      by (intro Cons.IH) simp
    ultimately show ?thesis by simp
  next
    case False
    with Cons show ?thesis by simp
  qed
qed


text \<open>The loop \<^verbatim>\<open>while just_reached and unreachable_versions\<close>.\<close>

function reach_loop :: "graph \<Rightarrow> version list \<Rightarrow> version list \<Rightarrow> version list" where
  "reach_loop g just_reached unreachable =
     (if just_reached \<noteq> [] \<and> unreachable \<noteq> [] then
        (case reach_files (upgrades_of g (last just_reached)) unreachable (butlast just_reached) of
           (unreachable', just_reached') \<Rightarrow> reach_loop g just_reached' unreachable')
      else unreachable)"
  by pat_completeness auto
termination
  apply (relation "measure (\<lambda>(g, j, u). 2 * length u + length j)")
   apply simp
  subgoal for g just_reached unreachable u' j'
    using reach_files_measure[of "upgrades_of g (last just_reached)" unreachable
        "butlast just_reached" u' j']
    by (cases just_reached rule: rev_cases) auto
  done

declare reach_loop.simps [simp del]

text \<open>
  The statements of \<^verbatim>\<open>SummaryVersionGraph.get_versions\<close> after the first one, for a
  valid \<^verbatim>\<open>current_version\<close>. The result is the returned set and the graph, which
  \<^verbatim>\<open>new_version\<close> may have changed.
\<close>

definition get_versions_from :: "graph \<Rightarrow> version \<Rightarrow> error + (version list \<times> graph)" where
  "get_versions_from g current_version =
     (case (if current_version \<in> set (versions g)
            then Inr (removeAll current_version (versions g), g)
            else (case new_version g current_version of
                    Inl e \<Rightarrow> Inl e
                  | Inr g1 \<Rightarrow> Inr (versions g, g1))) of
        Inl e \<Rightarrow> Inl e
      | Inr (unreachable1, g1) \<Rightarrow>
          let unreachable2 = reach_loop g1 [current_version] unreachable1
          in Inr (filter (\<lambda>v. v \<notin> set unreachable2) (versions g1), g1))"

text \<open>
  What \<^verbatim>\<open>get_versions\<close> returns: a set of valid versions, with the graph as the call
  leaves it, or the set whose only member is the invalid object \<^verbatim>\<open>current_version\<close>
  (the graph then has that object as a node, which a value of type \<open>graph\<close> cannot
  show).
\<close>

datatype reached = Reached "version list" graph | Only_invalid_source

text \<open>
  \<^verbatim>\<open>SummaryVersionGraph.get_versions(source)\<close>. Its first statement is
  \<^verbatim>\<open>current_version = VersionNumber(source)\<close>. When that object is invalid, it is equal
  to no version of the graph (comparisons with an invalid object fall back to object
  identity), so \<^verbatim>\<open>new_version\<close> is called; there \<^verbatim>\<open>in_any\<close> finds no match in a
  pattern that is not a wildcard, and \<^verbatim>\<open>wildcard_match\<close> raises \<^verbatim>\<open>TypeError\<close> at the
  first wildcard pattern (``Not a valid version number''). With no wildcard pattern in
  any file, the new node has no edge and is the only reached version.
\<close>

definition get_versions :: "graph \<Rightarrow> version_arg \<Rightarrow> error + reached" where
  "get_versions g source =
     (case VersionNumber_of source of
        None \<Rightarrow>
          if list_ex (\<lambda>f. list_ex wildcard (from_versions f)) (files g)
          then Inl TypeError
          else Inr Only_invalid_source
      | Some current_version \<Rightarrow>
          (case get_versions_from g current_version of
             Inl e \<Rightarrow> Inl e
           | Inr (vs, g') \<Rightarrow> Inr (Reached vs g')))"

section \<open>SummaryVersionGraph.get_best_path\<close>

text \<open>
  A value of \<^verbatim>\<open>node_status\<close>: \<^verbatim>\<open>[previous, file, cost, finished]\<close>.
\<close>

type_synonym entry = "version option \<times> known_file option \<times> nat \<times> bool"

text \<open>
  \<^verbatim>\<open>x < y\<close> for two queue entries \<^verbatim>\<open>(cost, node)\<close>. Python compares tuples by their
  first differing components: the costs if they differ, else the nodes, by
  \<^verbatim>\<open>__eq__\<close> and then \<^verbatim>\<open>__cmp__\<close>.
\<close>

definition tuple_lt :: "nat \<times> version \<Rightarrow> nat \<times> version \<Rightarrow> error + bool" where
  "tuple_lt x y =
     (if fst x \<noteq> fst y then Inr (fst x < fst y)
      else if version_eq (snd x) (snd y) then Inr False
      else version_lt (snd x) (snd y))"

text \<open>The binary search of \<^verbatim>\<open>bisect.insort\<close> (that is \<^verbatim>\<open>insort_right\<close>).\<close>

function bisect_right ::
  "(nat \<times> version) list \<Rightarrow> nat \<times> version \<Rightarrow> nat \<Rightarrow> nat \<Rightarrow> error + nat" where
  "bisect_right a x lo hi =
     (if lo < hi then
        (let mid = (lo + hi) div 2 in
         case tuple_lt x (a ! mid) of
           Inl e \<Rightarrow> Inl e
         | Inr lt \<Rightarrow> if lt then bisect_right a x lo mid else bisect_right a x (mid + 1) hi)
      else Inr lo)"
  by pat_completeness auto
termination
  by (relation "measure (\<lambda>(a, x, lo, hi). hi - lo)") auto

declare bisect_right.simps [simp del]

text \<open>\<^verbatim>\<open>bisect.insort(a, x)\<close>.\<close>

definition insort ::
  "(nat \<times> version) list \<Rightarrow> nat \<times> version \<Rightarrow> error + (nat \<times> version) list" where
  "insort a x =
     (case bisect_right a x 0 (length a) of
        Inl e \<Rightarrow> Inl e
      | Inr i \<Rightarrow> Inr (take i a @ [x] @ drop i a))"

text \<open>
  The body of the loop \<^verbatim>\<open>for upgrade_file in self.upgrades[node]\<close> of
  \<^verbatim>\<open>get_best_path\<close>. Both branches that enqueue are written as in the source: the
  first stores \<^verbatim>\<open>new_cost\<close>, the second stores \<^verbatim>\<open>cost_so_far\<close>.
\<close>

definition relax_step ::
  "(string \<Rightarrow> string) \<Rightarrow> version \<Rightarrow> version \<Rightarrow> nat \<Rightarrow> known_file
     \<Rightarrow> (nat \<times> version) list \<Rightarrow> (version \<times> entry) list \<Rightarrow> downloads
     \<Rightarrow> error + ((nat \<times> version) list \<times> (version \<times> entry) list \<times> downloads)" where
  "relax_step sha256 target node cost_so_far upgrade_file queue node_status fs =
     (let next_node = version upgrade_file in
      case version_gt next_node target of
        Inl e \<Rightarrow> Inl e
      | Inr gt \<Rightarrow>
          if gt then Inr (queue, node_status, fs)
          else
            (case get_cost sha256 fs upgrade_file of
               Inl e \<Rightarrow> Inl e
             | Inr (c, fs1) \<Rightarrow>
                 let new_cost = cost_so_far + c in
                 (case (if map_of node_status next_node = None then
                          (case insort queue (new_cost, next_node) of
                             Inl e \<Rightarrow> Inl e
                           | Inr q1 \<Rightarrow>
                               Inr (q1, dict_set next_node
                                          (Some node, Some upgrade_file, new_cost, False)
                                          node_status))
                        else Inr (queue, node_status)) of
                    Inl e \<Rightarrow> Inl e
                  | Inr (q1, st1) \<Rightarrow>
                      (case map_of st1 next_node of
                         None \<Rightarrow> Inl KeyError
                       | Some (previous, file, old_cost, finished) \<Rightarrow>
                           if \<not> finished \<and> old_cost > new_cost then
                             (case insort q1 (cost_so_far, next_node) of
                                Inl e \<Rightarrow> Inl e
                              | Inr q2 \<Rightarrow>
                                  Inr (q2, dict_set next_node
                                             (Some node, Some upgrade_file, cost_so_far, False)
                                             st1, fs1))
                           else Inr (q1, st1, fs1)))))"

text \<open>The loop \<^verbatim>\<open>for upgrade_file in self.upgrades[node]\<close>.\<close>

fun relax ::
  "(string \<Rightarrow> string) \<Rightarrow> version \<Rightarrow> version \<Rightarrow> nat \<Rightarrow> known_file list
     \<Rightarrow> (nat \<times> version) list \<Rightarrow> (version \<times> entry) list \<Rightarrow> downloads
     \<Rightarrow> error + ((nat \<times> version) list \<times> (version \<times> entry) list \<times> downloads)" where
  "relax sha256 target node cost_so_far [] queue node_status fs = Inr (queue, node_status, fs)"
| "relax sha256 target node cost_so_far (upgrade_file # rest) queue node_status fs =
     (case relax_step sha256 target node cost_so_far upgrade_file queue node_status fs of
        Inl e \<Rightarrow> Inl e
      | Inr (q1, st1, fs1) \<Rightarrow> relax sha256 target node cost_so_far rest q1 st1 fs1)"

text \<open>
  For the termination of the main loop: the nodes marked finished, the versions that
  some file of the graph produces, and the nodes that may still be finished.
\<close>

definition finished_nodes :: "(version \<times> entry) list \<Rightarrow> version set" where
  "finished_nodes st = {v. \<exists>p f c. map_of st v = Some (p, f, c, True)}"

definition produced :: "graph \<Rightarrow> version set" where
  "produced g = version ` (\<Union>kv \<in> set (upgrades g). set (snd kv))"

definition open_nodes :: "graph \<Rightarrow> (version \<times> entry) list \<Rightarrow> version set" where
  "open_nodes g st = (dom (map_of st) \<union> produced g) - finished_nodes st"

lemma map_of_dict_set: "map_of (dict_set k v d) = (map_of d)(k \<mapsto> v)"
  by (induction d) auto

lemma finished_dict_set_done:
  "finished_nodes (dict_set k (p, f, c, True) st) = insert k (finished_nodes st)"
  by (auto simp: finished_nodes_def map_of_dict_set)

lemma relax_step_keys:
  assumes "relax_step sha256 target node cost_so_far uf q st fs = Inr (q', st', fs')"
  shows "dom (map_of st') \<subseteq> insert (version uf) (dom (map_of st))"
  using assms
  by (auto simp: relax_step_def Let_def map_of_dict_set
           split: sum.splits if_splits prod.splits option.splits)

lemma relax_step_finished:
  assumes "relax_step sha256 target node cost_so_far uf q st fs = Inr (q', st', fs')"
  shows "finished_nodes st' = finished_nodes st"
  using assms
  by (auto simp: relax_step_def Let_def map_of_dict_set finished_nodes_def
           split: sum.splits if_splits prod.splits option.splits)

lemma relax_keys:
  "relax sha256 target node cost_so_far ufs q st fs = Inr (q', st', fs')
   \<Longrightarrow> dom (map_of st') \<subseteq> version ` set ufs \<union> dom (map_of st)"
proof (induction ufs arbitrary: q st fs)
  case Nil
  then show ?case by simp
next
  case (Cons uf ufs)
  from Cons.prems obtain q1 st1 fs1 where
    s: "relax_step sha256 target node cost_so_far uf q st fs = Inr (q1, st1, fs1)" and
    r: "relax sha256 target node cost_so_far ufs q1 st1 fs1 = Inr (q', st', fs')"
    by (auto split: sum.splits)
  from Cons.IH[OF r] relax_step_keys[OF s] show ?case by auto
qed

lemma relax_finished:
  "relax sha256 target node cost_so_far ufs q st fs = Inr (q', st', fs')
   \<Longrightarrow> finished_nodes st' = finished_nodes st"
proof (induction ufs arbitrary: q st fs)
  case Nil
  then show ?case by simp
next
  case (Cons uf ufs)
  from Cons.prems obtain q1 st1 fs1 where
    s: "relax_step sha256 target node cost_so_far uf q st fs = Inr (q1, st1, fs1)" and
    r: "relax sha256 target node cost_so_far ufs q1 st1 fs1 = Inr (q', st', fs')"
    by (auto split: sum.splits)
  from Cons.IH[OF r] relax_step_finished[OF s] show ?case by simp
qed

lemma upgrades_of_produced: "version ` set (upgrades_of g v) \<subseteq> produced g"
proof (cases "map_of (upgrades g) v")
  case None
  then show ?thesis by (simp add: upgrades_of_def)
next
  case (Some ufs)
  then have "(v, ufs) \<in> set (upgrades g)" by (rule map_of_SomeD)
  then have "set ufs \<subseteq> (\<Union>kv \<in> set (upgrades g). set (snd kv))" by force
  with Some show ?thesis by (auto simp: upgrades_of_def produced_def)
qed

lemma finite_open_nodes: "finite (open_nodes g st)"
  by (simp add: open_nodes_def produced_def finite_dom_map_of)

lemma open_nodes_decrease:
  assumes m: "map_of st node = Some (p, f, c, False)"
    and r: "relax sha256 target node cost_so_far (upgrades_of g node) q
              (dict_set node (p, f, c, True) st) fs = Inr (q', st', fs')"
  shows "card (open_nodes g st') < card (open_nodes g st)"
proof -
  from m have k: "node \<in> dom (map_of st)" by auto
  from m have nf: "node \<notin> finished_nodes st"
    by (simp add: finished_nodes_def)
  have fin: "finished_nodes st' = insert node (finished_nodes st)"
    using relax_finished[OF r] by (simp add: finished_dict_set_done)
  have d1: "dom (map_of (dict_set node (p, f, c, True) st)) = insert node (dom (map_of st))"
    by (simp add: map_of_dict_set)
  have "dom (map_of st') \<subseteq> version ` set (upgrades_of g node) \<union> insert node (dom (map_of st))"
    using relax_keys[OF r] unfolding d1 .
  with upgrades_of_produced[of g node] k
  have keys: "dom (map_of st') \<subseteq> dom (map_of st) \<union> produced g"
    by blast
  have "open_nodes g st' \<subseteq> open_nodes g st - {node}"
    using keys fin by (auto simp: open_nodes_def)
  moreover have "node \<in> open_nodes g st"
    using k nf by (simp add: open_nodes_def)
  ultimately have "open_nodes g st' \<subset> open_nodes g st" by blast
  then show ?thesis by (rule psubset_card_mono[OF finite_open_nodes])
qed

text \<open>The loop \<^verbatim>\<open>while queue\<close>.\<close>

function best_path_loop ::
  "(string \<Rightarrow> string) \<Rightarrow> graph \<Rightarrow> version \<Rightarrow> (nat \<times> version) list \<Rightarrow> (version \<times> entry) list
     \<Rightarrow> downloads \<Rightarrow> error + ((version \<times> entry) list \<times> downloads)" where
  "best_path_loop sha256 g target queue node_status fs =
     (case queue of
        [] \<Rightarrow> Inr (node_status, fs)
      | (cost_so_far, node) # queue' \<Rightarrow>
          (case map_of node_status node of
             None \<Rightarrow> Inl KeyError
           | Some (previous, file, cost, finished) \<Rightarrow>
               if finished then best_path_loop sha256 g target queue' node_status fs
               else if version_eq node target
               then Inr (dict_set node (previous, file, cost, True) node_status, fs)
               else
                 (case relax sha256 target node cost_so_far (upgrades_of g node) queue'
                         (dict_set node (previous, file, cost, True) node_status) fs of
                    Inl e \<Rightarrow> Inl e
                  | Inr (queue2, status2, fs2) \<Rightarrow>
                      best_path_loop sha256 g target queue2 status2 fs2)))"
  by pat_completeness auto
termination
  apply (relation "measures [\<lambda>(sha256, g, target, queue, node_status, fs).
                               card (open_nodes g node_status),
                             \<lambda>(sha256, g, target, queue, node_status, fs). length queue]")
    apply simp
   apply simp
  apply (auto dest: open_nodes_decrease)
  done

declare best_path_loop.simps [simp del]

text \<open>
  The loop that reassembles the path from \<^verbatim>\<open>target\<close> backwards. The source has no
  bound on it (\<^verbatim>\<open>while True\<close>), so \<open>None\<close> is the run that never ends.
\<close>

partial_function (option) walk_back ::
  "(version \<times> entry) list \<Rightarrow> version \<Rightarrow> known_file list \<Rightarrow> (error + known_file list) option" where
  "walk_back node_status current_node path =
     (case map_of node_status current_node of
        None \<Rightarrow> Some (Inl KeyError)
      | Some (next_node, file, cost, finished) \<Rightarrow>
          (case file of
             None \<Rightarrow> Some (Inr path)
           | Some f \<Rightarrow>
               (case next_node of
                  None \<Rightarrow> Some (Inl KeyError)
                | Some n \<Rightarrow> walk_back node_status n (path @ [f]))))"

declare walk_back.simps [code]

text \<open>
  \<^verbatim>\<open>SummaryVersionGraph.get_best_path\<close>, from the values \<^verbatim>\<open>source\<close> and \<^verbatim>\<open>target\<close>
  of \<^verbatim>\<open>VersionNumber(source)\<close> and \<^verbatim>\<open>VersionNumber(target)\<close> on. The cost of an edge
  is \<^verbatim>\<open>get_cost\<close>, which may write to the downloads directory, so the directory is
  passed through. \<^verbatim>\<open>EskyVersionError\<close> is the ``no valid path'' error.
\<close>

definition get_best_path ::
  "(string \<Rightarrow> string) \<Rightarrow> graph \<Rightarrow> downloads \<Rightarrow> version \<Rightarrow> version
     \<Rightarrow> (error + (known_file list \<times> downloads)) option" where
  "get_best_path sha256 g fs source target =
     (case best_path_loop sha256 g target [(0, source)] [(source, (None, None, 0, False))] fs of
        Inl e \<Rightarrow> Some (Inl e)
      | Inr (node_status, fs') \<Rightarrow>
          if map_of node_status target = None then Some (Inl EskyVersionError)
          else
            (case walk_back node_status target [] of
               None \<Rightarrow> None
             | Some (Inl e) \<Rightarrow> Some (Inl e)
             | Some (Inr path) \<Rightarrow> Some (Inr (rev path, fs'))))"




section \<open>Example summaries\<close>

text \<open>
  Versions without qualifier, as the parser gives them for \<^verbatim>\<open>"0.1"\<close> or \<^verbatim>\<open>"0.*"\<close>
  (and \<^verbatim>\<open>"*"\<close>, with no parts).
\<close>

definition plain_version :: "int list \<Rightarrow> version" where
  "plain_version ps = \<lparr>parts = ps, qualifier = NoQual, wildcard = False\<rparr>"

definition wildcard_version :: "int list \<Rightarrow> version" where
  "wildcard_version ps = \<lparr>parts = ps, qualifier = NoQual, wildcard = True\<rparr>"

text \<open>The running application and the rows of a summary written for it.\<close>

definition example_app :: app where
  "example_app = \<lparr>name = ''example'', app_platform = ''win32''\<rparr>"

definition example_file ::
  "nat \<Rightarrow> version \<Rightarrow> version list \<Rightarrow> string \<Rightarrow> nat \<Rightarrow> known_file" where
  "example_file i v fr fn sz =
     \<lparr>ident = i, app_name = ''example'', platform = ''win32'', version = v,
      from_versions = fr, filename = fn, fsize = sz, hash = None\<rparr>"

text \<open>
  A summary with a full install of version 1 and five patches; every row declares its
  size, which is its cost while nothing has been downloaded.
\<close>

definition full_1 :: known_file where
  "full_1 = example_file 0 (plain_version [1]) [wildcard_version []] ''example-1.win32.zip'' 20004"
definition patch_1_2 :: known_file where
  "patch_1_2 = example_file 1 (plain_version [2]) [plain_version [1]] ''example-1-to-2.win32.esky'' 10"
definition patch_1_3 :: known_file where
  "patch_1_3 = example_file 2 (plain_version [3]) [plain_version [1]] ''example-1-to-3.win32.esky'' 100"
definition patch_2_3 :: known_file where
  "patch_2_3 = example_file 3 (plain_version [3]) [plain_version [2]] ''example-2-to-3.win32.esky'' 20"
definition patch_1_4 :: known_file where
  "patch_1_4 = example_file 4 (plain_version [4]) [plain_version [1]] ''example-1-to-4.win32.esky'' 70"
definition patch_3_4 :: known_file where
  "patch_3_4 = example_file 5 (plain_version [4]) [plain_version [3]] ''example-3-to-4.win32.esky'' 50"

definition cost_summary :: "known_file list" where
  "cost_summary = [full_1, patch_1_2, patch_1_3, patch_2_3, patch_1_4, patch_3_4]"

text \<open>The graph that the constructor builds from this summary.\<close>

definition cost_graph :: graph where
  "cost_graph =
     \<lparr>upgrades =
        [(plain_version [1], [full_1, patch_1_2, patch_1_3, patch_1_4]),
         (plain_version [2], [full_1, patch_2_3]),
         (plain_version [3], [full_1, patch_3_4]),
         (plain_version [4], [full_1])],
      files = cost_summary,
      versions = [plain_version [1], plain_version [2], plain_version [3], plain_version [4]]\<rparr>"

text \<open>
  The summary of the docstring of \<^verbatim>\<open>SummaryVersionFinder\<close>:
  \<^verbatim>\<open>0.1\<close> from \<^verbatim>\<open>*\<close>, \<^verbatim>\<open>0.2\<close> from \<^verbatim>\<open>0.1\<close> (32 bytes), \<^verbatim>\<open>1.0\<close> from \<^verbatim>\<open>0.*\<close>
  (1043 bytes) and \<^verbatim>\<open>1.0\<close> from \<^verbatim>\<open>*\<close> (20004 bytes).
\<close>

definition doc_full_01 :: known_file where
  "doc_full_01 =
     example_file 0 (plain_version [0, 1]) [wildcard_version []] ''example-0.1.win32.zip'' 0"

definition doc_patch_02 :: known_file where
  "doc_patch_02 =
     example_file 1 (plain_version [0, 2]) [plain_version [0, 1]]
       ''example-0.1-to-0.2.win32.esky'' 32"

definition doc_patch_10 :: known_file where
  "doc_patch_10 =
     example_file 2 (plain_version [1]) [wildcard_version [0]]
       ''example-0.x-to-1.0.win32.esky'' 1043"

definition doc_full_10 :: known_file where
  "doc_full_10 =
     example_file 3 (plain_version [1]) [wildcard_version []] ''example-1.0.win32.zip'' 20004"

definition doc_summary :: "known_file list" where
  "doc_summary = [doc_full_01, doc_patch_02, doc_patch_10, doc_full_10]"

text \<open>
  The graph built from it, and that graph after \<^verbatim>\<open>get_versions("0.15")\<close> has added the
  running version \<^verbatim>\<open>0.15\<close>, which the summary does not list.
\<close>

definition doc_graph :: graph where
  "doc_graph =
     \<lparr>upgrades =
        [(plain_version [0, 1], [doc_full_01, doc_patch_02, doc_patch_10, doc_full_10]),
         (plain_version [0, 2], [doc_full_01, doc_patch_10, doc_full_10]),
         (plain_version [1], [doc_full_01, doc_full_10])],
      files = doc_summary,
      versions = [plain_version [0, 1], plain_version [0, 2], plain_version [1]]\<rparr>"

definition doc_graph_injected :: graph where
  "doc_graph_injected =
     doc_graph
       \<lparr>upgrades := upgrades doc_graph
                     @ [(plain_version [0, 15], [doc_full_01, doc_patch_10, doc_full_10])],
        versions := versions doc_graph @ [plain_version [0, 15]]\<rparr>"



text \<open>
  Two valid versions whose canonical strings do not lead back to them: the values of
  \<^verbatim>\<open>VersionNumber("1_final0")\<close> and \<^verbatim>\<open>VersionNumber("1_a5*0")\<close>.
\<close>

definition final0_version :: version where
  "final0_version = \<lparr>parts = [1], qualifier = Qual (PyStr ''-1'') 0 ''final'', wildcard = False\<rparr>"


text \<open>A patch row that declares its size and its digest.\<close>

definition example_patch :: known_file where
  "example_patch =
     \<lparr>ident = 0, app_name = ''example'', platform = ''win32'',
      version = \<lparr>parts = [1, 1], qualifier = NoQual, wildcard = False\<rparr>,
      from_versions = [\<lparr>parts = [1], qualifier = NoQual, wildcard = False\<rparr>],
      filename = ''example-1.0-to-1.1.win32.esky'', fsize = 4, hash = Some ''good''\<rparr>"

lemmas example_defs =
  full_1_def patch_1_2_def patch_1_3_def patch_2_3_def patch_1_4_def patch_3_4_def
  example_file_def plain_version_def wildcard_version_def example_app_def cost_summary_def

lemmas graph_defs =
  SummaryVersionGraph_def add_file_def new_version_def set_add_def add_upgrade_def
  version_gt_def version_cmp_def version_contains_def wildcard_match_def version_eq_def
  has_qualifier_def Let_def

lemmas path_defs =
  get_best_path_def best_path_loop.simps walk_back.simps relax_step_def insort_def
  bisect_right.simps tuple_lt_def version_lt_def upgrades_of_def get_cost_def check_hash_def
  get_filename_def empty_version_def MB_def KB_def

lemmas doc_defs = doc_full_01_def doc_patch_02_def doc_patch_10_def doc_full_10_def doc_summary_def

section \<open>Properties of the version algebra\<close>

lemma wildcard_loop_short:
  "length ys < length xs \<Longrightarrow> wildcard_loop q (izip_longest xs ys) = Some False"
  by (induction xs ys rule: izip_longest.induct) auto

text \<open>
  Claim C2. The specification says that a candidate whose parts run out before the
  wildcard's parts matches exactly when the remaining wildcard parts are all zero, so
  that \<^verbatim>\<open>"1.0" in VersionNumber("1.0.0.*")\<close> is true; the comment in the source says
  the same. The code does something else: once the candidate is exhausted, the test
  \<^verbatim>\<open>yours != mine\<close> compares \<^verbatim>\<open>None\<close> with a number and returns \<^verbatim>\<open>False\<close>, also
  for a zero. Whenever the candidate has fewer parts than the wildcard,
  \<^verbatim>\<open>wildcard_match\<close> is false. The instance below is
  \<^verbatim>\<open>VersionNumber("1.0") in VersionNumber("1.0.0.*")\<close>.
\<close>

theorem wildcard_match_candidate_exhausted:
  "length (parts other) < length (parts self) \<Longrightarrow> wildcard_match self other = Inr False"
  by (auto simp: wildcard_match_def wildcard_loop_short)

theorem wildcard_match_candidate_exhausted_witness:
  "VersionNumber ''1.0.0.*'' = Some \<lparr>parts = [1, 0, 0], qualifier = NoQual, wildcard = True\<rparr>
   \<and> VersionNumber ''1.0'' = Some \<lparr>parts = [1], qualifier = NoQual, wildcard = False\<rparr>
   \<and> length (parts \<lparr>parts = [1], qualifier = NoQual, wildcard = False\<rparr>)
       < length (parts \<lparr>parts = [1, 0, 0], qualifier = NoQual, wildcard = True\<rparr>)
   \<and> wildcard_match \<lparr>parts = [1, 0, 0], qualifier = NoQual, wildcard = True\<rparr>
         \<lparr>parts = [1], qualifier = NoQual, wildcard = False\<rparr> = Inr False
   \<and> version_contains \<lparr>parts = [1, 0, 0], qualifier = NoQual, wildcard = True\<rparr>
         \<lparr>parts = [1], qualifier = NoQual, wildcard = False\<rparr> = Inr False"
proof -
  have p1: "VersionNumber ''1.0.0.*''
              = Some \<lparr>parts = [1, 0, 0], qualifier = NoQual, wildcard = True\<rparr>"
    by code_simp
  have p2: "VersionNumber ''1.0'' = Some \<lparr>parts = [1], qualifier = NoQual, wildcard = False\<rparr>"
    by code_simp
  have l: "length (parts \<lparr>parts = [1], qualifier = NoQual, wildcard = False\<rparr>)
       < length (parts \<lparr>parts = [1, 0, 0], qualifier = NoQual, wildcard = True\<rparr>)"
    by simp
  from wildcard_match_candidate_exhausted[OF l] p1 p2 l show ?thesis
    by (simp add: version_contains_def)
qed

lemma parse_qualifier_cases:
  "parse_qualifier q = NoQual
   \<or> (\<exists>ord n nm. parse_qualifier q = Qual ord n nm \<and> ord \<noteq> PyInt (- 1))"
  by (auto simp: parse_qualifier_def Let_def KNOWN_QUALIFIERS_def split: option.splits)

lemma VersionNumber_qualifier:
  assumes "VersionNumber s = Some a" and "\<not> wildcard a"
  shows "qualifier a = NoQual \<or> (\<exists>ord n nm. qualifier a = Qual ord n nm \<and> ord \<noteq> PyInt (- 1))"
proof -
  obtain lst hq qual where
    p: "partition_on CHR ''_'' (last (split_on CHR ''.'' (rstrip ''.*'' s))) = (lst, hq, qual)"
    by (cases "partition_on CHR ''_'' (last (split_on CHR ''.'' (rstrip ''.*'' s)))") auto
  from parse_qualifier_cases[of qual] show ?thesis
  proof
    assume "parse_qualifier qual = NoQual"
    with assms p show ?thesis
      by (auto simp: VersionNumber_def Let_def split: if_splits option.splits)
  next
    assume "\<exists>ord n nm. parse_qualifier qual = Qual ord n nm \<and> ord \<noteq> PyInt (- 1)"
    then obtain ord n nm where "parse_qualifier qual = Qual ord n nm" "ord \<noteq> PyInt (- 1)"
      by blast
    with assms p show ?thesis
      by (auto simp: VersionNumber_def Let_def split: if_splits option.splits)
  qed
qed

text \<open>
  Claim C4. The specification wants an ordering comparison to fail when a qualifier has
  an unknown name, and \<^verbatim>\<open>__cmp__\<close> tests \<^verbatim>\<open>my_order == -1\<close> for that. But
  \<^verbatim>\<open>parse_qualifier\<close> gives an unknown name the string \<^verbatim>\<open>"-1"\<close>, never the number, so
  the test does not fire: the comparison of two parsed, non-empty, non-wildcard versions
  always returns a result. The instance below is \<^verbatim>\<open>"1.0_supercool"\<close> against
  \<^verbatim>\<open>"1.0_pre"\<close>, where \<^verbatim>\<open>"1.0_pre" < "1.0_supercool"\<close> is silently true.
\<close>

theorem unknown_qualifier_compare_no_error:
  assumes "VersionNumber s = Some a" and "VersionNumber t = Some b"
    and "parts a \<noteq> []" and "parts b \<noteq> []" and "\<not> wildcard a" and "\<not> wildcard b"
  shows "\<exists>c. version_cmp a b = Inr c
             \<and> version_lt a b = Inr (c < 0) \<and> version_le a b = Inr (c \<le> 0)
             \<and> version_gt a b = Inr (c > 0) \<and> version_ge a b = Inr (c \<ge> 0)"
proof -
  from VersionNumber_qualifier[OF assms(1) assms(5)] VersionNumber_qualifier[OF assms(2) assms(6)]
  have "\<exists>c. version_cmp a b = Inr c" using assms(3-6)
    by (auto simp: version_cmp_def split: option.splits)
  then show ?thesis
    by (auto simp: version_lt_def version_le_def version_gt_def version_ge_def)
qed

theorem unknown_qualifier_compare_no_error_witness:
  "VersionNumber ''1.0_supercool''
     = Some \<lparr>parts = [1], qualifier = Qual (PyStr ''-1'') 0 ''supercool'', wildcard = False\<rparr>
   \<and> VersionNumber ''1.0_pre''
     = Some \<lparr>parts = [1], qualifier = Qual (PyInt 0) 0 ''pre'', wildcard = False\<rparr>
   \<and> (\<exists>c. version_cmp
              \<lparr>parts = [1], qualifier = Qual (PyStr ''-1'') 0 ''supercool'', wildcard = False\<rparr>
              \<lparr>parts = [1], qualifier = Qual (PyInt 0) 0 ''pre'', wildcard = False\<rparr> = Inr c)
   \<and> version_lt
        \<lparr>parts = [1], qualifier = Qual (PyInt 0) 0 ''pre'', wildcard = False\<rparr>
        \<lparr>parts = [1], qualifier = Qual (PyStr ''-1'') 0 ''supercool'', wildcard = False\<rparr>
       = Inr True"
proof -
  have p1: "VersionNumber ''1.0_supercool''
     = Some \<lparr>parts = [1], qualifier = Qual (PyStr ''-1'') 0 ''supercool'', wildcard = False\<rparr>"
    by code_simp
  have p2: "VersionNumber ''1.0_pre''
     = Some \<lparr>parts = [1], qualifier = Qual (PyInt 0) 0 ''pre'', wildcard = False\<rparr>"
    by code_simp
  have lt: "version_lt
        \<lparr>parts = [1], qualifier = Qual (PyInt 0) 0 ''pre'', wildcard = False\<rparr>
        \<lparr>parts = [1], qualifier = Qual (PyStr ''-1'') 0 ''supercool'', wildcard = False\<rparr>
       = Inr True"
    by code_simp
  from unknown_qualifier_compare_no_error[OF p1 p2] p1 p2 lt show ?thesis by auto
qed

text \<open>
  Claim C9. The specification says that parsing the canonical string of a valid
  non-wildcard version gives an equal version, and \<^verbatim>\<open>__init__\<close> relies on it to copy
  a version. It fails for \<^verbatim>\<open>VersionNumber("1_final0")\<close>: the qualifier is named
  \<^verbatim>\<open>final\<close> with number \<open>0\<close>, the number \<open>0\<close> is not printed, and \<^verbatim>\<open>"1_final"\<close>
  parses to the version without qualifier.
\<close>

theorem str_roundtrip_final0:
  "VersionNumber ''1_final0''
     = Some \<lparr>parts = [1], qualifier = Qual (PyStr ''-1'') 0 ''final'', wildcard = False\<rparr>
   \<and> version_str \<lparr>parts = [1], qualifier = Qual (PyStr ''-1'') 0 ''final'', wildcard = False\<rparr>
     = ''1_final''
   \<and> version_copy \<lparr>parts = [1], qualifier = Qual (PyStr ''-1'') 0 ''final'', wildcard = False\<rparr>
     = Some \<lparr>parts = [1], qualifier = NoQual, wildcard = False\<rparr>
   \<and> version_eq \<lparr>parts = [1], qualifier = NoQual, wildcard = False\<rparr>
        \<lparr>parts = [1], qualifier = Qual (PyStr ''-1'') 0 ''final'', wildcard = False\<rparr> = False"
  by code_simp

section \<open>Properties of the graph and of the planner\<close>














lemma example_versions_parsed:
  "VersionNumber ''*'' = Some (wildcard_version [])"
  "VersionNumber ''0.*'' = Some (wildcard_version [0])"
  "VersionNumber ''0.1'' = Some (plain_version [0, 1])"
  "VersionNumber ''0.15'' = Some (plain_version [0, 15])"
  "VersionNumber ''0.2'' = Some (plain_version [0, 2])"
  "VersionNumber ''1.0'' = Some (plain_version [1])"
  by code_simp+

lemma cost_graph_built: "SummaryVersionGraph cost_summary example_app = Inr cost_graph"
  by (simp add: cost_graph_def example_defs graph_defs)

text \<open>
  Python does not fix the order in which a set is iterated. The lists of a set of two,
  three or four distinct elements are these.
\<close>

lemma orders_of_two:
  assumes "distinct xs" and "set xs = {a, b}" and "a \<noteq> b"
  shows "xs = [a, b] \<or> xs = [b, a]"
proof -
  from assms have "length xs = 2"
    using distinct_card[of xs] by simp
  then obtain x y where xs: "xs = [x, y]"
    by (auto simp: length_Suc_conv numeral_2_eq_2)
  with assms show ?thesis by auto
qed

lemma orders_of_three:
  assumes "distinct xs" and "set xs = {a, b, c}" and "distinct [a, b, c]"
  shows "xs \<in> {[a, b, c], [a, c, b], [b, a, c], [b, c, a], [c, a, b], [c, b, a]}"
proof -
  from assms have "length xs = 3"
    using distinct_card[of xs] by simp
  then obtain x ys where xs: "xs = x # ys" and l: "length ys = 2"
    by (auto simp: length_Suc_conv numeral_eq_Suc)
  from assms(1) xs have dy: "distinct ys" and nx: "x \<notin> set ys" by auto
  from assms(2) xs have "x \<in> {a, b, c}" by auto
  then consider "x = a" | "x = b" | "x = c" by blast
  then show ?thesis
  proof cases
    case 1
    with assms xs nx have "set ys = {b, c}" by auto
    from orders_of_two[OF dy this] assms(3) 1 xs show ?thesis by auto
  next
    case 2
    with assms xs nx have "set ys = {a, c}" by auto
    from orders_of_two[OF dy this] assms(3) 2 xs show ?thesis by auto
  next
    case 3
    with assms xs nx have "set ys = {a, b}" by auto
    from orders_of_two[OF dy this] assms(3) 3 xs show ?thesis by auto
  qed
qed

lemma orders_of_four:
  assumes "distinct xs" and "set xs = {a, b, c, d}" and "distinct [a, b, c, d]"
  shows "xs \<in> {[a, b, c, d], [a, b, d, c], [a, c, b, d], [a, c, d, b], [a, d, b, c], [a, d, c, b],
               [b, a, c, d], [b, a, d, c], [b, c, a, d], [b, c, d, a], [b, d, a, c], [b, d, c, a],
               [c, a, b, d], [c, a, d, b], [c, b, a, d], [c, b, d, a], [c, d, a, b], [c, d, b, a],
               [d, a, b, c], [d, a, c, b], [d, b, a, c], [d, b, c, a], [d, c, a, b], [d, c, b, a]}"
proof -
  from assms have "length xs = 4"
    using distinct_card[of xs] by simp
  then obtain x ys where xs: "xs = x # ys" and l: "length ys = 3"
    by (auto simp: length_Suc_conv numeral_eq_Suc)
  from assms(1) xs have dy: "distinct ys" and nx: "x \<notin> set ys" by auto
  from assms(2) xs have "x \<in> {a, b, c, d}" by auto
  then consider "x = a" | "x = b" | "x = c" | "x = d" by blast
  then show ?thesis
  proof cases
    case 1
    with assms xs nx have "set ys = {b, c, d}" by auto
    from orders_of_three[OF dy this] assms(3) 1 xs show ?thesis by auto
  next
    case 2
    with assms xs nx have "set ys = {a, c, d}" by auto
    from orders_of_three[OF dy this] assms(3) 2 xs show ?thesis by auto
  next
    case 3
    with assms xs nx have "set ys = {a, b, d}" by auto
    from orders_of_three[OF dy this] assms(3) 3 xs show ?thesis by auto
  next
    case 4
    with assms xs nx have "set ys = {a, b, c}" by auto
    from orders_of_three[OF dy this] assms(3) 4 xs show ?thesis by auto
  qed
qed

text \<open>
  The planner on the graph of \<open>cost_summary\<close>, for every order in which the three
  sets of edges with more than one element may be iterated.
\<close>

lemma cost_graph_path_orders:
  assumes "e1 \<in> {[full_1, patch_1_2, patch_1_3, patch_1_4], [full_1, patch_1_2, patch_1_4, patch_1_3],
                  [full_1, patch_1_3, patch_1_2, patch_1_4], [full_1, patch_1_3, patch_1_4, patch_1_2],
                  [full_1, patch_1_4, patch_1_2, patch_1_3], [full_1, patch_1_4, patch_1_3, patch_1_2],
                  [patch_1_2, full_1, patch_1_3, patch_1_4], [patch_1_2, full_1, patch_1_4, patch_1_3],
                  [patch_1_2, patch_1_3, full_1, patch_1_4], [patch_1_2, patch_1_3, patch_1_4, full_1],
                  [patch_1_2, patch_1_4, full_1, patch_1_3], [patch_1_2, patch_1_4, patch_1_3, full_1],
                  [patch_1_3, full_1, patch_1_2, patch_1_4], [patch_1_3, full_1, patch_1_4, patch_1_2],
                  [patch_1_3, patch_1_2, full_1, patch_1_4], [patch_1_3, patch_1_2, patch_1_4, full_1],
                  [patch_1_3, patch_1_4, full_1, patch_1_2], [patch_1_3, patch_1_4, patch_1_2, full_1],
                  [patch_1_4, full_1, patch_1_2, patch_1_3], [patch_1_4, full_1, patch_1_3, patch_1_2],
                  [patch_1_4, patch_1_2, full_1, patch_1_3], [patch_1_4, patch_1_2, patch_1_3, full_1],
                  [patch_1_4, patch_1_3, full_1, patch_1_2], [patch_1_4, patch_1_3, patch_1_2, full_1]}"
    and "e2 \<in> {[full_1, patch_2_3], [patch_2_3, full_1]}"
    and "e3 \<in> {[full_1, patch_3_4], [patch_3_4, full_1]}"
  shows "get_best_path sha256
           \<lparr>upgrades = [(plain_version [1], e1), (plain_version [2], e2),
                         (plain_version [3], e3), (plain_version [4], [full_1])],
            files = cost_summary,
            versions = [plain_version [1], plain_version [2], plain_version [3],
                        plain_version [4]]\<rparr>
           Map.empty (plain_version [1]) (plain_version [4])
         = Some (Inr ([patch_1_2, patch_2_3, patch_3_4], Map.empty))"
  using assms
  apply (elim insertE emptyE)
  apply (simp_all add: example_defs graph_defs path_defs)
  done

lemma relax_stores_cost_so_far:
  "relax_step sha256 (plain_version [4]) (plain_version [2]) 10 patch_2_3
     [(70, plain_version [4]), (100, plain_version [3])]
     [(plain_version [3], (Some (plain_version [1]), Some patch_1_3, 100, False))] Map.empty
   = Inr ([(10, plain_version [3]), (70, plain_version [4]), (100, plain_version [3])],
          [(plain_version [3], (Some (plain_version [2]), Some patch_2_3, 10, False))],
          Map.empty)"
  by (simp add: example_defs graph_defs path_defs)

text \<open>
  Claim C1. The specification says that the returned path has the least total cost, and
  that a node whose cost improves is enqueued again with
  \<^verbatim>\<open>new_cost = cost_so_far + edge cost\<close>. The branch of the source that handles the
  improvement stores and enqueues \<^verbatim>\<open>cost_so_far\<close> instead, the cost of the node the
  edge leaves, so the node looks cheaper than it is. For the summary \<open>cost_summary\<close>
  and an empty downloads directory, \<^verbatim>\<open>get_best_path("1", "4")\<close> returns the patches
  \<^verbatim>\<open>1->2\<close>, \<^verbatim>\<open>2->3\<close>, \<^verbatim>\<open>3->4\<close> of total cost \<open>10 + 20 + 50 = 80\<close>, although
  the graph has the single patch \<^verbatim>\<open>1->4\<close> of cost \<open>70\<close>. This holds for every order
  \<open>e1\<close>, \<open>e2\<close>, \<open>e3\<close> in which the sets of edges that leave the versions 1, 2 and 3
  are iterated; the instance below is the graph as the constructor builds it.
\<close>

theorem best_path_not_cheapest:
  assumes "distinct e1" and "set e1 = {full_1, patch_1_2, patch_1_3, patch_1_4}"
    and "distinct e2" and "set e2 = {full_1, patch_2_3}"
    and "distinct e3" and "set e3 = {full_1, patch_3_4}"
  shows "get_best_path sha256
           (cost_graph\<lparr>upgrades := [(plain_version [1], e1), (plain_version [2], e2),
                                     (plain_version [3], e3), (plain_version [4], [full_1])]\<rparr>)
           Map.empty (plain_version [1]) (plain_version [4])
           = Some (Inr ([patch_1_2, patch_2_3, patch_3_4], Map.empty))
         \<and> get_cost sha256 Map.empty patch_1_2 = Inr (10, Map.empty)
         \<and> get_cost sha256 Map.empty patch_2_3 = Inr (20, Map.empty)
         \<and> get_cost sha256 Map.empty patch_3_4 = Inr (50, Map.empty)
         \<and> patch_1_4 \<in> set e1
         \<and> version patch_1_4 = plain_version [4]
         \<and> get_cost sha256 Map.empty patch_1_4 = Inr (70, Map.empty)"
proof -
  have d4: "distinct [full_1, patch_1_2, patch_1_3, patch_1_4]"
    by (simp add: example_defs)
  have d2: "full_1 \<noteq> patch_2_3" "full_1 \<noteq> patch_3_4"
    by (simp_all add: example_defs)
  note o1 = orders_of_four[OF assms(1) assms(2) d4]
  from orders_of_two[OF assms(3) assms(4) d2(1)]
  have o2: "e2 \<in> {[full_1, patch_2_3], [patch_2_3, full_1]}" by blast
  from orders_of_two[OF assms(5) assms(6) d2(2)]
  have o3: "e3 \<in> {[full_1, patch_3_4], [patch_3_4, full_1]}" by blast
  have p: "get_best_path sha256
           (cost_graph\<lparr>upgrades := [(plain_version [1], e1), (plain_version [2], e2),
                                     (plain_version [3], e3), (plain_version [4], [full_1])]\<rparr>)
           Map.empty (plain_version [1]) (plain_version [4])
           = Some (Inr ([patch_1_2, patch_2_3, patch_3_4], Map.empty))"
    using cost_graph_path_orders[OF o1 o2 o3, of sha256] by (simp add: cost_graph_def)
  have c: "get_cost sha256 Map.empty patch_1_2 = Inr (10, Map.empty)"
    "get_cost sha256 Map.empty patch_2_3 = Inr (20, Map.empty)"
    "get_cost sha256 Map.empty patch_3_4 = Inr (50, Map.empty)"
    "get_cost sha256 Map.empty patch_1_4 = Inr (70, Map.empty)"
    by (simp_all add: get_cost_def check_hash_def example_defs)
  have e: "patch_1_4 \<in> set e1"
    using assms(2) by simp
  have v: "version patch_1_4 = plain_version [4]"
    by (simp add: example_defs)
  show ?thesis
    using p c e v by simp
qed

theorem best_path_not_cheapest_witness:
  "SummaryVersionGraph cost_summary example_app = Inr cost_graph
   \<and> get_best_path (\<lambda>s. s) cost_graph Map.empty (plain_version [1]) (plain_version [4])
       = Some (Inr ([patch_1_2, patch_2_3, patch_3_4], Map.empty))
   \<and> get_cost (\<lambda>s. s) Map.empty patch_1_2 = Inr (10, Map.empty)
   \<and> get_cost (\<lambda>s. s) Map.empty patch_2_3 = Inr (20, Map.empty)
   \<and> get_cost (\<lambda>s. s) Map.empty patch_3_4 = Inr (50, Map.empty)
   \<and> patch_1_4 \<in> set (upgrades_of cost_graph (plain_version [1]))
   \<and> version patch_1_4 = plain_version [4]
   \<and> get_cost (\<lambda>s. s) Map.empty patch_1_4 = Inr (70, Map.empty)"
proof -
  have g: "cost_graph\<lparr>upgrades := [(plain_version [1], [full_1, patch_1_2, patch_1_3, patch_1_4]),
                                   (plain_version [2], [full_1, patch_2_3]),
                                   (plain_version [3], [full_1, patch_3_4]),
                                   (plain_version [4], [full_1])]\<rparr> = cost_graph"
    by (simp add: cost_graph_def)
  have u: "upgrades_of cost_graph (plain_version [1]) = [full_1, patch_1_2, patch_1_3, patch_1_4]"
    by (simp add: cost_graph_def upgrades_of_def)
  have d: "distinct [full_1, patch_1_2, patch_1_3, patch_1_4]" "distinct [full_1, patch_2_3]"
    "distinct [full_1, patch_3_4]"
    by (simp_all add: example_defs)
  from best_path_not_cheapest[of "[full_1, patch_1_2, patch_1_3, patch_1_4]"
         "[full_1, patch_2_3]" "[full_1, patch_3_4]" "\<lambda>s. s"] d g u cost_graph_built
  show ?thesis by simp
qed

lemma doc_graph_built: "SummaryVersionGraph doc_summary example_app = Inr doc_graph"
  by (simp add: doc_graph_def doc_defs example_defs graph_defs)

lemma reach_loop_stop:
  "just_reached = [] \<or> unreachable = []
   \<Longrightarrow> reach_loop g just_reached unreachable = unreachable"
  by (subst reach_loop.simps) auto

lemma reach_loop_step:
  "just_reached \<noteq> [] \<Longrightarrow> unreachable \<noteq> [] \<Longrightarrow>
   reach_loop g just_reached unreachable =
     reach_loop g
       (snd (reach_files (upgrades_of g (last just_reached)) unreachable (butlast just_reached)))
       (fst (reach_files (upgrades_of g (last just_reached)) unreachable (butlast just_reached)))"
  by (subst reach_loop.simps) (simp add: case_prod_beta)

lemma doc_graph_get_versions:
  "get_versions_from doc_graph (plain_version [0, 15])
     = Inr ([plain_version [0, 1], plain_version [0, 2], plain_version [1],
             plain_version [0, 15]],
            doc_graph_injected)"
  by (simp add: get_versions_from_def reach_loop_step reach_loop_stop doc_graph_injected_def
        doc_graph_def doc_defs example_defs graph_defs upgrades_of_def)

text \<open>
  A source that is a version object which its canonical string does not give back need
  not be in the returned set: \<^verbatim>\<open>get_versions\<close> searches from the copy. For the object
  \<^verbatim>\<open>VersionNumber("1_final0")\<close> and the graph of the docstring's summary, the search
  starts from version \<^verbatim>\<open>1\<close>; the returned set does not contain the object, and the
  object is not made a node.
\<close>

lemma get_versions_copy_misses_source:
  "VersionNumber ''1_final0'' = Some final0_version
   \<and> VersionNumber_of (Obj final0_version) = Some (plain_version [1])
   \<and> get_versions doc_graph (Obj final0_version)
       = Inr (Reached [plain_version [0, 1], plain_version [0, 2], plain_version [1]] doc_graph)
   \<and> final0_version \<notin> set [plain_version [0, 1], plain_version [0, 2], plain_version [1]]
   \<and> final0_version \<notin> set (versions doc_graph)"
proof -
  have p: "VersionNumber ''1_final0'' = Some final0_version"
    "version_copy final0_version = Some (plain_version [1])"
    by code_simp+
  have v: "get_versions_from doc_graph (plain_version [1])
             = Inr ([plain_version [0, 1], plain_version [0, 2], plain_version [1]], doc_graph)"
    by (simp add: get_versions_from_def reach_loop_step reach_loop_stop doc_graph_def doc_defs
          example_defs graph_defs upgrades_of_def)
  have n: "final0_version \<notin> set [plain_version [0, 1], plain_version [0, 2], plain_version [1]]"
    "final0_version \<notin> set (versions doc_graph)"
    by (simp_all add: final0_version_def plain_version_def doc_graph_def)
  from p v n show ?thesis by (simp add: get_versions_def VersionNumber_of_def)
qed

text \<open>
  The planner on the graph of the docstring's summary with the running version
  \<^verbatim>\<open>0.15\<close> added, for every order in which the edges that leave \<^verbatim>\<open>0.15\<close> and
  \<^verbatim>\<open>0.1\<close> may be iterated.
\<close>

lemma doc_graph_path_orders:
  assumes "e0 \<in> {[doc_full_01, doc_patch_10, doc_full_10],
                  [doc_full_01, doc_full_10, doc_patch_10],
                  [doc_patch_10, doc_full_01, doc_full_10],
                  [doc_patch_10, doc_full_10, doc_full_01],
                  [doc_full_10, doc_full_01, doc_patch_10],
                  [doc_full_10, doc_patch_10, doc_full_01]}"
    and "e1 \<in> {[doc_full_01, doc_patch_02, doc_patch_10, doc_full_10],
                  [doc_full_01, doc_patch_02, doc_full_10, doc_patch_10],
                  [doc_full_01, doc_patch_10, doc_patch_02, doc_full_10],
                  [doc_full_01, doc_patch_10, doc_full_10, doc_patch_02],
                  [doc_full_01, doc_full_10, doc_patch_02, doc_patch_10],
                  [doc_full_01, doc_full_10, doc_patch_10, doc_patch_02],
                  [doc_patch_02, doc_full_01, doc_patch_10, doc_full_10],
                  [doc_patch_02, doc_full_01, doc_full_10, doc_patch_10],
                  [doc_patch_02, doc_patch_10, doc_full_01, doc_full_10],
                  [doc_patch_02, doc_patch_10, doc_full_10, doc_full_01],
                  [doc_patch_02, doc_full_10, doc_full_01, doc_patch_10],
                  [doc_patch_02, doc_full_10, doc_patch_10, doc_full_01],
                  [doc_patch_10, doc_full_01, doc_patch_02, doc_full_10],
                  [doc_patch_10, doc_full_01, doc_full_10, doc_patch_02],
                  [doc_patch_10, doc_patch_02, doc_full_01, doc_full_10],
                  [doc_patch_10, doc_patch_02, doc_full_10, doc_full_01],
                  [doc_patch_10, doc_full_10, doc_full_01, doc_patch_02],
                  [doc_patch_10, doc_full_10, doc_patch_02, doc_full_01],
                  [doc_full_10, doc_full_01, doc_patch_02, doc_patch_10],
                  [doc_full_10, doc_full_01, doc_patch_10, doc_patch_02],
                  [doc_full_10, doc_patch_02, doc_full_01, doc_patch_10],
                  [doc_full_10, doc_patch_02, doc_patch_10, doc_full_01],
                  [doc_full_10, doc_patch_10, doc_full_01, doc_patch_02],
                  [doc_full_10, doc_patch_10, doc_patch_02, doc_full_01]}"
  shows "get_best_path sha256
           \<lparr>upgrades = [(plain_version [0, 1], e1),
                         (plain_version [0, 2], [doc_full_01, doc_patch_10, doc_full_10]),
                         (plain_version [1], [doc_full_01, doc_full_10]),
                         (plain_version [0, 15], e0)],
            files = doc_summary,
            versions = [plain_version [0, 1], plain_version [0, 2], plain_version [1],
                        plain_version [0, 15]]\<rparr>
           Map.empty (plain_version [0, 15]) (plain_version [0, 2])
         = Some (Inr ([doc_full_01, doc_patch_02], Map.empty))"
  using assms
  apply (elim insertE emptyE)
  apply (simp_all add: doc_defs example_defs graph_defs path_defs)
  done

text \<open>
  Claim C6. The specification says that no planned path contains a step to a lower
  version, also for the edges that \<^verbatim>\<open>new_version\<close> wires in. \<^verbatim>\<open>add_file\<close> skips the
  versions greater than the one a file produces, but \<^verbatim>\<open>new_version\<close> has no such test.
  With the summary of the docstring and the running version \<^verbatim>\<open>0.15\<close>,
  \<^verbatim>\<open>get_versions\<close> wires the full install of \<^verbatim>\<open>0.1\<close> as an edge that leaves \<^verbatim>\<open>0.15\<close>,
  and \<^verbatim>\<open>get_best_path("0.15", "0.2")\<close> returns that full install followed by the patch
  to \<^verbatim>\<open>0.2\<close>: its first step goes from \<^verbatim>\<open>0.15\<close> down to \<^verbatim>\<open>0.1\<close>. This holds for every
  order \<open>e0\<close>, \<open>e1\<close> in which the sets of edges that leave \<^verbatim>\<open>0.15\<close> and \<^verbatim>\<open>0.1\<close> are
  iterated; the instance below is the graph as the constructor and \<^verbatim>\<open>get_versions\<close>
  build it.
\<close>

theorem planned_path_downgrades:
  assumes "distinct e0" and "set e0 = {doc_full_01, doc_patch_10, doc_full_10}"
    and "distinct e1" and "set e1 = {doc_full_01, doc_patch_02, doc_patch_10, doc_full_10}"
  shows "get_best_path sha256
           (doc_graph_injected
              \<lparr>upgrades := [(plain_version [0, 1], e1),
                            (plain_version [0, 2], [doc_full_01, doc_patch_10, doc_full_10]),
                            (plain_version [1], [doc_full_01, doc_full_10]),
                            (plain_version [0, 15], e0)]\<rparr>)
           Map.empty (plain_version [0, 15]) (plain_version [0, 2])
           = Some (Inr ([doc_full_01, doc_patch_02], Map.empty))
         \<and> doc_full_01 \<in> set e0
         \<and> version_lt (version doc_full_01) (plain_version [0, 15]) = Inr True
         \<and> version_ge (version doc_full_01) (plain_version [0, 15]) = Inr False"
proof -
  have d3: "distinct [doc_full_01, doc_patch_10, doc_full_10]"
    by (simp add: doc_defs example_defs)
  have d4: "distinct [doc_full_01, doc_patch_02, doc_patch_10, doc_full_10]"
    by (simp add: doc_defs example_defs)
  note o0 = orders_of_three[OF assms(1) assms(2) d3]
  note o1 = orders_of_four[OF assms(3) assms(4) d4]
  have p: "get_best_path sha256
           (doc_graph_injected
              \<lparr>upgrades := [(plain_version [0, 1], e1),
                            (plain_version [0, 2], [doc_full_01, doc_patch_10, doc_full_10]),
                            (plain_version [1], [doc_full_01, doc_full_10]),
                            (plain_version [0, 15], e0)]\<rparr>)
           Map.empty (plain_version [0, 15]) (plain_version [0, 2])
           = Some (Inr ([doc_full_01, doc_patch_02], Map.empty))"
    using doc_graph_path_orders[OF o0 o1, of sha256]
    by (simp add: doc_graph_injected_def doc_graph_def)
  have e: "doc_full_01 \<in> set e0"
    using assms(2) by simp
  have l: "version_lt (version doc_full_01) (plain_version [0, 15]) = Inr True"
    by (simp add: doc_defs example_defs version_lt_def version_cmp_def)
  have ge: "version_ge (version doc_full_01) (plain_version [0, 15]) = Inr False"
    by (simp add: doc_defs example_defs version_ge_def version_cmp_def)
  show ?thesis
    using p e l ge by simp
qed

theorem planned_path_downgrades_witness:
  "SummaryVersionGraph doc_summary example_app = Inr doc_graph
   \<and> get_versions_from doc_graph (plain_version [0, 15])
       = Inr ([plain_version [0, 1], plain_version [0, 2], plain_version [1],
               plain_version [0, 15]],
              doc_graph_injected)
   \<and> get_best_path (\<lambda>s. s) doc_graph_injected Map.empty (plain_version [0, 15])
         (plain_version [0, 2])
       = Some (Inr ([doc_full_01, doc_patch_02], Map.empty))
   \<and> doc_full_01 \<in> set (upgrades_of doc_graph_injected (plain_version [0, 15]))
   \<and> version_lt (version doc_full_01) (plain_version [0, 15]) = Inr True
   \<and> version_ge (version doc_full_01) (plain_version [0, 15]) = Inr False"
proof -
  have g: "doc_graph_injected
              \<lparr>upgrades := [(plain_version [0, 1],
                             [doc_full_01, doc_patch_02, doc_patch_10, doc_full_10]),
                            (plain_version [0, 2], [doc_full_01, doc_patch_10, doc_full_10]),
                            (plain_version [1], [doc_full_01, doc_full_10]),
                            (plain_version [0, 15], [doc_full_01, doc_patch_10, doc_full_10])]\<rparr>
           = doc_graph_injected"
    by (simp add: doc_graph_injected_def doc_graph_def)
  have u: "upgrades_of doc_graph_injected (plain_version [0, 15])
             = [doc_full_01, doc_patch_10, doc_full_10]"
    by (simp add: doc_graph_injected_def doc_graph_def upgrades_of_def plain_version_def)
  have d: "distinct [doc_full_01, doc_patch_10, doc_full_10]"
    "distinct [doc_full_01, doc_patch_02, doc_patch_10, doc_full_10]"
    by (simp_all add: doc_defs example_defs)
  from planned_path_downgrades[of "[doc_full_01, doc_patch_10, doc_full_10]"
         "[doc_full_01, doc_patch_02, doc_patch_10, doc_full_10]" "\<lambda>s. s"]
       d g u doc_graph_built doc_graph_get_versions
  show ?thesis by simp
qed

section \<open>Properties of the downloads\<close>

text \<open>
  Claim C10. \<^verbatim>\<open>check_hash\<close> writes to the file it checks. When the record declares a
  digest and a size other than zero, the local file exists and the caller passes no
  digest, the file is cut (or extended with zero bytes) to the declared size before it is
  hashed, and stays so: its new length is the declared size, and a file that was longer
  has lost its tail.
\<close>

theorem check_hash_truncates_file:
  assumes "hash f = Some h" and "h \<noteq> []" and "fsize f \<noteq> 0"
    and "fs (get_filename f) = Some data"
  shows "check_hash sha256 fs f actual_size None
           = Inr (sha256 (truncate_to (fsize f) data) = h,
                  fs(get_filename f \<mapsto> truncate_to (fsize f) data))
         \<and> length (truncate_to (fsize f) data) = fsize f
         \<and> (fsize f < length data \<longrightarrow>
               truncate_to (fsize f) data = take (fsize f) data
               \<and> fs(get_filename f \<mapsto> truncate_to (fsize f) data) \<noteq> fs)"
proof -
  have c: "check_hash sha256 fs f actual_size None
           = Inr (sha256 (truncate_to (fsize f) data) = h,
                  fs(get_filename f \<mapsto> truncate_to (fsize f) data))"
    using assms
    by (auto simp: check_hash_def no_hash_def call_hash_file_def hash_file_def Let_def)
  have l: "length (truncate_to (fsize f) data) = fsize f"
    by (simp add: truncate_to_def)
  have m: "fs(get_filename f \<mapsto> truncate_to (fsize f) data) \<noteq> fs"
    if "fsize f < length data"
  proof
    assume "fs(get_filename f \<mapsto> truncate_to (fsize f) data) = fs"
    then have "(fs(get_filename f \<mapsto> truncate_to (fsize f) data)) (get_filename f)
                 = fs (get_filename f)"
      by simp
    with assms(4) have "truncate_to (fsize f) data = data" by simp
    with l that show False by simp
  qed
  show ?thesis using c l m by (simp add: truncate_to_def)
qed

theorem check_hash_truncates_file_witness:
  "check_hash (\<lambda>s. s) [''example-1.0-to-1.1.win32.esky'' \<mapsto> ''good and more''] example_patch
       None None
     = Inr (True, [''example-1.0-to-1.1.win32.esky'' \<mapsto> ''good''])
   \<and> [''example-1.0-to-1.1.win32.esky'' \<mapsto> ''good'']
       \<noteq> [''example-1.0-to-1.1.win32.esky'' \<mapsto> ''good and more'']"
  using check_hash_truncates_file[of example_patch "''good''"
          "[''example-1.0-to-1.1.win32.esky'' \<mapsto> ''good and more'']" "''good and more''"
          "\<lambda>s. s" None]
  by (simp add: example_patch_def get_filename_def truncate_to_def)

text \<open>
  Claim C5. The specification says that, when several records share the name of a local
  file, \<^verbatim>\<open>identify_file\<close> hashes the file once and returns the record whose check
  passes, or the last listed one. The source calls \<^verbatim>\<open>hash_file(full_filename)\<close> without
  the \<^verbatim>\<open>size\<close> argument that the function requires, so with two or more matching
  records the call raises \<^verbatim>\<open>TypeError\<close> and no record is returned.
\<close>

theorem identify_file_several_matches:
  "1 < length (filter (\<lambda>file. get_filename file = fname) known_files)
   \<Longrightarrow> identify_file sha256 known_files fs fname = Inl TypeError"
  by (auto simp: identify_file_def call_hash_file_def Let_def)

theorem identify_file_several_matches_witness:
  "1 < length (filter (\<lambda>file. get_filename file = ''example-1.0-to-1.1.win32.esky'')
                 [example_patch, example_patch\<lparr>ident := 1, hash := Some ''other''\<rparr>])
   \<and> identify_file (\<lambda>s. s) [example_patch, example_patch\<lparr>ident := 1, hash := Some ''other''\<rparr>]
         [''example-1.0-to-1.1.win32.esky'' \<mapsto> ''good'']
         ''example-1.0-to-1.1.win32.esky'' = Inl TypeError"
proof -
  have l: "1 < length (filter (\<lambda>file. get_filename file = ''example-1.0-to-1.1.win32.esky'')
                 [example_patch, example_patch\<lparr>ident := 1, hash := Some ''other''\<rparr>])"
    by (simp add: example_patch_def get_filename_def)
  from identify_file_several_matches[OF l] l show ?thesis by simp
qed

text \<open>
  Claim C3. The specification says that, after a first download that is complete but
  has the wrong digest, the file is deleted, one attempt is used up and the second
  attempt downloads the file again and succeeds. In the source the branch of the failed
  check deletes the file and then falls through to the test
  \<^verbatim>\<open>resumed_from == seek_to\<close>; both variables still hold \<open>0\<close> from the first attempt, so
  the test holds, the second attempt is used up as well, and \<^verbatim>\<open>os.unlink\<close> is called on
  the file that was just deleted. \<^verbatim>\<open>fetch\<close> ends with \<^verbatim>\<open>OSError\<close>, and the server is
  not asked again: the remaining answers are untouched.
\<close>

theorem fetch_hash_mismatch_raises:
  assumes "hash f = Some h" and "h \<noteq> []" and "0 < fsize f"
    and "fs (get_filename f) = None"
    and "fsize f \<le> length data"
    and "sha256 (truncate_to (fsize f) data) \<noteq> h"
  shows "fetch sha256 f fs (Body data # rest) = (Inl OSError, fs, rest)"
proof -
  let ?fn = "get_filename f"
  let ?fs1 = "fs(?fn \<mapsto> data)"
  have p1: "fetch_probe sha256 f 2 None fs = Inr (Go 2 (Some 0), fs)"
    using assms(4) by (simp add: fetch_probe_def)
  have s1: "fetch_loop sha256 f 2 (- 1) None fs (Body data # rest)
              = fetch_loop sha256 f 2 0 (Some 0) ?fs1 rest"
    by (subst fetch_loop.simps) (simp add: p1 write_body_def)
  have c: "check_hash sha256 ?fs1 f None None
             = Inr (False, ?fs1(?fn \<mapsto> truncate_to (fsize f) data))"
    using assms(1,2,3,6)
    by (auto simp: check_hash_def no_hash_def call_hash_file_def hash_file_def Let_def)
  have p2: "fetch_probe sha256 f 2 (Some 0) ?fs1 = Inr (Go 1 (Some 0), fs)"
    using assms(3,4,5) by (auto simp: fetch_probe_def c Let_def)
  have s2: "fetch_loop sha256 f 2 0 (Some 0) ?fs1 rest = (Inl OSError, fs, rest)"
    using assms(4) by (subst fetch_loop.simps) (simp add: p2)
  show ?thesis by (simp add: fetch_def s1 s2)
qed

theorem fetch_hash_mismatch_raises_witness:
  "fetch (\<lambda>s. s) example_patch Map.empty [Body ''bad!'', Body ''good'']
     = (Inl OSError, Map.empty, [Body ''good''])"
  using fetch_hash_mismatch_raises[of example_patch "''good''" Map.empty "''bad!''" "\<lambda>s. s"
          "[Body ''good'']"]
  by (simp add: example_patch_def get_filename_def truncate_to_def)

end
